theory Spec2Isabelle
  imports Complex_Main "HOL-Library.Sublist" "HOL-Library.AList"
begin

section \<open>Data model\<close>

text \<open>
  The hierarchy service of Dashboard CRurales (\<^verbatim>\<open>src/services/hierarchyService.ts\<close>) and the
  ranking pass of the worker analytics service (\<^verbatim>\<open>src/services/workerAnalyticsService.ts\<close>).

  Conventions of the embedding:
  \<^item> a JavaScript \<^verbatim>\<open>number\<close> that holds a count or an index is a \<open>nat\<close>, a timestamp in
    milliseconds is an \<open>int\<close>, a score or a rate is a \<open>real\<close> (the arithmetic of the source is
    read over the reals; rounding of IEEE doubles is not modelled);
  \<^item> a JavaScript string is the list of its UTF-16 code units, each a \<open>nat\<close> below 65536;
    \<open>ascii\<close> turns an ASCII literal into such a list;
  \<^item> the rows are parsed JSON that the gateway casts to the row types
    (\<^verbatim>\<open>data as LiderWithHierarchy[]\<close>), and the metric functions take a row as \<^verbatim>\<open>any\<close>:
    a row is an object, but the value of a column is whatever the JSON holds (\<open>JsField\<close>),
    and a nested relation is an array of rows, nothing, or some other value (\<open>JsArray\<close>). Only
    \<^verbatim>\<open>ciudadanos\<close>, which the service reads through \<^verbatim>\<open>?.length\<close> alone and on which no
    access can throw, is kept as the declared type says: an array or nothing;
  \<^item> \<^verbatim>\<open>num_verificado\<close> is kept as its truthiness, \<^verbatim>\<open>created_at\<close> as the value of
    \<^verbatim>\<open>new Date(created_at).getTime()\<close>: \<open>Some t\<close> for a date, \<open>None\<close> for \<^verbatim>\<open>NaN\<close>;
  \<^item> an exception is a value \<open>Thrown\<close> on the left of a sum;
  \<^item> \<^verbatim>\<open>Date.now()\<close> is a parameter \<open>now\<close>, \<^verbatim>\<open>String.prototype.toLowerCase\<close> a parameter
    \<open>toLowerCase\<close> of the functions that call it.
\<close>

type_synonym JsString = "nat list"

definition ascii :: "string \<Rightarrow> JsString" where
  "ascii s = map of_char s"

text \<open>
  The value of a column: \<open>Missing\<close> is \<^verbatim>\<open>undefined\<close> or \<^verbatim>\<open>null\<close>, \<open>Str\<close> a string, and
  \<open>NonString truthy\<close> any other value, of which only the truthiness matters: \<^verbatim>\<open>false\<close> and
  \<^verbatim>\<open>0\<close> are falsy, \<^verbatim>\<open>true\<close>, the other numbers, arrays and objects are truthy. A value that
  is not a string has no \<^verbatim>\<open>trim\<close> and no \<^verbatim>\<open>toLowerCase\<close>: calling one throws a
  \<^verbatim>\<open>TypeError\<close>.
\<close>

datatype JsField = Missing | Str JsString | NonString bool

text \<open>
  The value of a nested relation: \<open>NoArray\<close> is \<^verbatim>\<open>undefined\<close> or \<^verbatim>\<open>null\<close>, \<open>Array\<close> an array
  of rows, \<open>NonArray truthy\<close> any other value. A value that is not an array has no \<^verbatim>\<open>map\<close> and
  no \<^verbatim>\<open>reduce\<close>.
\<close>

datatype 'a JsArray = NoArray | Array "'a list" | NonArray bool

datatype Thrown = ThrownServiceError string | ThrownTypeError | ThrownOther string

record LocationInfo =
  entidad :: JsField
  municipio :: JsField
  seccion :: JsField
  colonia :: JsField
  codigo_postal :: JsField

text \<open>
  \<^verbatim>\<open>LideresRow\<close>, \<^verbatim>\<open>BrigadistasRow\<close>, \<^verbatim>\<open>MovilizadoresRow\<close> and \<^verbatim>\<open>CiudadanosRow\<close> of
  \<^verbatim>\<open>src/types/database.ts\<close> have the same fields but for the parent key, which the service never
  reads. The five location fields are those of \<open>LocationInfo\<close>, so the row extends it.
\<close>

record WorkerRow = LocationInfo +
  id_row :: JsField
  nombre :: JsField
  clave_electoral :: JsField
  curp :: JsField
  direccion :: JsField
  numero_cel :: JsField
  num_verificado :: bool
  created_at :: "int option"

type_synonym CiudadanosRow = WorkerRow

record MovilizadorWithHierarchy = WorkerRow +
  ciudadanos :: "CiudadanosRow list option"

record BrigadistaWithHierarchy = WorkerRow +
  movilizadores :: "MovilizadorWithHierarchy JsArray"

record LiderWithHierarchy = WorkerRow +
  brigadistas :: "BrigadistaWithHierarchy JsArray"

datatype Role = Lider | Brigadista | Movilizador

datatype Tendencia = Up | Down | Stable

record PerformanceMetrics =
  ciudadanosRegistrados :: nat
  tasaVerificacion :: real
  completitudDatos :: real
  ranking :: nat
  tendencia :: Tendencia
  ultimaActividad :: "int option"

text \<open>
  \<^verbatim>\<open>HierarchicalWorker\<close> of \<^verbatim>\<open>src/types/index.ts\<close>. The selectors carry the prefix \<open>hw_\<close>
  because several field names are shared with the rows and with \<open>PerformanceMetrics\<close>.
  \<open>hw_level\<close> is the \<^verbatim>\<open>level\<close> property that \<^verbatim>\<open>flattenHierarchy\<close> adds; it is \<open>None\<close> in a tree.
  A missing \<^verbatim>\<open>children\<close> property is the empty list: every function below treats the two alike
  (\<^verbatim>\<open>children?.forEach\<close>, \<^verbatim>\<open>children && children.length > 0\<close>).
\<close>

datatype HierarchicalWorker = HierarchicalWorker
  (hw_id: JsField)
  (hw_nombre: JsField)
  (hw_role: Role)
  (hw_ciudadanosRegistrados: nat)
  (hw_ubicacion: LocationInfo)
  (hw_children: "HierarchicalWorker list")
  (hw_performance: PerformanceMetrics)
  (hw_parentId: JsField)
  (hw_isActive: bool)
  (hw_lastActivity: "int option")
  (hw_level: "nat option")

section \<open>Exceptions\<close>

text \<open>Sequencing: a throw ends the computation.\<close>

definition andThen :: "Thrown + 'a \<Rightarrow> ('a \<Rightarrow> Thrown + 'b) \<Rightarrow> Thrown + 'b" where
  "andThen r f = (case r of Inl e \<Rightarrow> Inl e | Inr x \<Rightarrow> f x)"

text \<open>
  \<^verbatim>\<open>Array.prototype.map\<close>, \<^verbatim>\<open>filter\<close> and \<^verbatim>\<open>reduce\<close> with a callback that may throw: the
  first throw ends the loop.
\<close>

fun mapThrowing :: "('a \<Rightarrow> Thrown + 'b) \<Rightarrow> 'a list \<Rightarrow> Thrown + 'b list" where
  "mapThrowing f [] = Inr []"
| "mapThrowing f (x # xs) =
     (case f x of
        Inl e \<Rightarrow> Inl e
      | Inr y \<Rightarrow> (case mapThrowing f xs of Inl e \<Rightarrow> Inl e | Inr ys \<Rightarrow> Inr (y # ys)))"

fun filterThrowing :: "('a \<Rightarrow> Thrown + bool) \<Rightarrow> 'a list \<Rightarrow> Thrown + 'a list" where
  "filterThrowing P [] = Inr []"
| "filterThrowing P (x # xs) =
     (case P x of
        Inl e \<Rightarrow> Inl e
      | Inr b \<Rightarrow>
          (case filterThrowing P xs of
             Inl e \<Rightarrow> Inl e
           | Inr ys \<Rightarrow> Inr (if b then x # ys else ys)))"

fun reduceThrowing :: "('b \<Rightarrow> 'a \<Rightarrow> Thrown + 'b) \<Rightarrow> 'b \<Rightarrow> 'a list \<Rightarrow> Thrown + 'b" where
  "reduceThrowing f acc [] = Inr acc"
| "reduceThrowing f acc (x # xs) =
     (case f acc x of Inl e \<Rightarrow> Inl e | Inr acc' \<Rightarrow> reduceThrowing f acc' xs)"

text \<open>
  \<^verbatim>\<open>(x || [])\<close> as the receiver of \<^verbatim>\<open>map\<close> or \<^verbatim>\<open>reduce\<close>: a falsy value gives way to the empty
  array; a truthy value that is not an array stays, and the call on it throws.
\<close>

definition arrayOrEmpty :: "'a JsArray \<Rightarrow> Thrown + 'a list" where
  "arrayOrEmpty x =
     (case x of
        NoArray \<Rightarrow> Inr []
      | Array xs \<Rightarrow> Inr xs
      | NonArray truthy \<Rightarrow> if truthy then Inl ThrownTypeError else Inr [])"

section \<open>Metrics calculator\<close>

subsection \<open>Strings\<close>

text \<open>
  The code units that \<^verbatim>\<open>String.prototype.trim\<close> strips, as ECMAScript defines them: the white
  space TAB, VT, FF, SP, NBSP, ZWNBSP and the other space separators (U+1680, U+2000 to U+200A,
  U+202F, U+205F, U+3000), and the line terminators LF, CR, LS and PS.
\<close>

definition isWhitespace :: "nat \<Rightarrow> bool" where
  "isWhitespace c =
     (c \<in> {9, 10, 11, 12, 13, 32, 160, 5760, 8232, 8233, 8239, 8287, 12288, 65279}
      \<or> (8192 \<le> c \<and> c \<le> 8202))"

definition trim :: "JsString \<Rightarrow> JsString" where
  "trim s = rev (dropWhile isWhitespace (rev (dropWhile isWhitespace s)))"

subsection \<open>calculateDataCompleteness\<close>

definition fields_of :: "'a WorkerRow_scheme \<Rightarrow> JsField list" where
  "fields_of worker =
     [nombre worker, clave_electoral worker, curp worker, direccion worker, colonia worker,
      codigo_postal worker, seccion worker, entidad worker, municipio worker, numero_cel worker]"

text \<open>
  The filter predicate \<^verbatim>\<open>worker[field] && worker[field].trim() !== ''\<close>: a missing field, the
  empty string and a falsy value stop at \<^verbatim>\<open>&&\<close>; a truthy value that is not a string reaches
  \<^verbatim>\<open>.trim()\<close>, which throws.
\<close>

definition fieldCompleted :: "JsField \<Rightarrow> Thrown + bool" where
  "fieldCompleted f =
     (case f of
        Missing \<Rightarrow> Inr False
      | Str s \<Rightarrow> Inr (s \<noteq> [] \<and> trim s \<noteq> [])
      | NonString truthy \<Rightarrow> if truthy then Inl ThrownTypeError else Inr False)"

definition calculateDataCompleteness :: "'a WorkerRow_scheme \<Rightarrow> Thrown + real" where
  "calculateDataCompleteness worker =
     andThen (filterThrowing fieldCompleted (fields_of worker))
       (\<lambda>completed. Inr ((real (length completed) / real (length (fields_of worker))) * 100))"

subsection \<open>Trend and activity\<close>

text \<open>
  \<^verbatim>\<open>Math.floor((Date.now() - new Date(created_at).getTime()) / (1000 * 60 * 60 * 24))\<close>.
  Integer division rounds down, as \<^verbatim>\<open>Math.floor\<close> does; \<open>None\<close> is \<^verbatim>\<open>NaN\<close>, for which
  every comparison of the source is false.
\<close>

definition daysSinceCreation :: "int \<Rightarrow> int option \<Rightarrow> int option" where
  "daysSinceCreation now created =
     (case created of None \<Rightarrow> None | Some t \<Rightarrow> Some ((now - t) div (1000 * 60 * 60 * 24)))"

definition calculateTrend :: "int \<Rightarrow> 'a WorkerRow_scheme \<Rightarrow> Tendencia" where
  "calculateTrend now worker =
     (case daysSinceCreation now (created_at worker) of
        None \<Rightarrow> Stable
      | Some d \<Rightarrow> if d < 7 then Up else if d > 30 then Down else Stable)"

definition isWorkerActive :: "int \<Rightarrow> int option \<Rightarrow> bool" where
  "isWorkerActive now createdAt =
     (case daysSinceCreation now createdAt of None \<Rightarrow> False | Some d \<Rightarrow> d \<le> 90)"

subsection \<open>calculatePerformanceMetrics\<close>

definition extractLocationInfo :: "'a WorkerRow_scheme \<Rightarrow> LocationInfo" where
  "extractLocationInfo worker =
     \<lparr>entidad = entidad worker, municipio = municipio worker, seccion = seccion worker,
      colonia = colonia worker, codigo_postal = codigo_postal worker\<rparr>"

definition calculatePerformanceMetrics ::
    "int \<Rightarrow> 'a WorkerRow_scheme \<Rightarrow> nat \<Rightarrow> Thrown + PerformanceMetrics" where
  "calculatePerformanceMetrics now worker ciudadanosCount =
     andThen (calculateDataCompleteness worker)
       (\<lambda>completitud.
          Inr \<lparr>ciudadanosRegistrados = ciudadanosCount,
               tasaVerificacion = (if num_verificado worker then 100 else 0),
               completitudDatos = completitud,
               ranking = 0,
               tendencia = calculateTrend now worker,
               ultimaActividad = created_at worker\<rparr>)"

section \<open>Tree builder\<close>

text \<open>
  The build is synchronous; it reads the clock once (\<open>now\<close>). \<^verbatim>\<open>ciudadanos?.length || 0\<close> is
  0 for a missing array.
\<close>

definition ciudadanosLength :: "MovilizadorWithHierarchy \<Rightarrow> nat" where
  "ciudadanosLength movilizador =
     (case ciudadanos movilizador of None \<Rightarrow> 0 | Some cs \<Rightarrow> length cs)"

definition transformMovilizadorToHierarchicalWorker ::
    "int \<Rightarrow> MovilizadorWithHierarchy \<Rightarrow> JsField \<Rightarrow> Thrown + HierarchicalWorker" where
  "transformMovilizadorToHierarchicalWorker now movilizador parentId =
     (let totalCiudadanos = ciudadanosLength movilizador
      in andThen (calculatePerformanceMetrics now movilizador totalCiudadanos)
           (\<lambda>performance.
              Inr (HierarchicalWorker (id_row movilizador) (nombre movilizador) Movilizador
                     totalCiudadanos (extractLocationInfo movilizador) [] performance
                     parentId (isWorkerActive now (created_at movilizador))
                     (created_at movilizador) None)))"

text \<open>
  In \<^verbatim>\<open>transformBrigadistaToHierarchicalWorker\<close> the children come from
  \<^verbatim>\<open>(brigadista.movilizadores || []).map(...)\<close> and the total from
  \<^verbatim>\<open>brigadista.movilizadores?.reduce(...) || 0\<close>: \<^verbatim>\<open>?.\<close> stops at \<^verbatim>\<open>undefined\<close> and
  \<^verbatim>\<open>null\<close> only, so on any other value that is not an array the call of \<^verbatim>\<open>reduce\<close> throws.
\<close>

definition movilizadoresTotal :: "BrigadistaWithHierarchy \<Rightarrow> Thrown + nat" where
  "movilizadoresTotal brigadista =
     (case movilizadores brigadista of
        NoArray \<Rightarrow> Inr 0
      | Array ms \<Rightarrow> Inr (foldl (\<lambda>sum mov. sum + ciudadanosLength mov) 0 ms)
      | NonArray truthy \<Rightarrow> Inl ThrownTypeError)"

definition transformBrigadistaToHierarchicalWorker ::
    "int \<Rightarrow> BrigadistaWithHierarchy \<Rightarrow> JsField \<Rightarrow> Thrown + HierarchicalWorker" where
  "transformBrigadistaToHierarchicalWorker now brigadista parentId =
     andThen
       (andThen (arrayOrEmpty (movilizadores brigadista))
          (mapThrowing (\<lambda>movilizador.
             transformMovilizadorToHierarchicalWorker now movilizador (id_row brigadista))))
       (\<lambda>movs.
          andThen (movilizadoresTotal brigadista)
            (\<lambda>totalCiudadanos.
               andThen (calculatePerformanceMetrics now brigadista totalCiudadanos)
                 (\<lambda>performance.
                    Inr (HierarchicalWorker (id_row brigadista) (nombre brigadista) Brigadista
                           totalCiudadanos (extractLocationInfo brigadista) movs performance
                           parentId (isWorkerActive now (created_at brigadista))
                           (created_at brigadista) None))))"

definition calculateTotalCiudadanos :: "LiderWithHierarchy \<Rightarrow> Thrown + nat" where
  "calculateTotalCiudadanos lider =
     andThen (arrayOrEmpty (brigadistas lider))
       (reduceThrowing
          (\<lambda>total brigadista.
             andThen (arrayOrEmpty (movilizadores brigadista))
               (\<lambda>ms. Inr (total
                   + foldl (\<lambda>brigTotal movilizador. brigTotal + ciudadanosLength movilizador) 0 ms)))
          0)"

definition transformLiderToHierarchicalWorker ::
    "int \<Rightarrow> LiderWithHierarchy \<Rightarrow> Thrown + HierarchicalWorker" where
  "transformLiderToHierarchicalWorker now lider =
     andThen
       (andThen (arrayOrEmpty (brigadistas lider))
          (mapThrowing (\<lambda>brigadista.
             transformBrigadistaToHierarchicalWorker now brigadista (id_row lider))))
       (\<lambda>brigs.
          andThen (calculateTotalCiudadanos lider)
            (\<lambda>totalCiudadanos.
               andThen (calculatePerformanceMetrics now lider totalCiudadanos)
                 (\<lambda>performance.
                    Inr (HierarchicalWorker (id_row lider) (nombre lider) Lider
                           totalCiudadanos (extractLocationInfo lider) brigs performance
                           Missing (isWorkerActive now (created_at lider))
                           (created_at lider) None))))"

definition transformToHierarchicalWorkers ::
    "int \<Rightarrow> LiderWithHierarchy list \<Rightarrow> Thrown + HierarchicalWorker list" where
  "transformToHierarchicalWorkers now rows =
     mapThrowing (transformLiderToHierarchicalWorker now) rows"

section \<open>Cache\<close>

text \<open>
  The cache is a JavaScript \<^verbatim>\<open>Map\<close>, which iterates in insertion order: an association list
  with distinct keys. \<open>AList.update\<close> is \<^verbatim>\<open>Map.set\<close> (an existing key keeps its place, a new one
  goes last), \<open>AList.delete\<close> is \<^verbatim>\<open>Map.delete\<close>, \<open>map_of\<close> is \<^verbatim>\<open>Map.get\<close>, and the first
  pair holds \<^verbatim>\<open>keys().next().value\<close>.
\<close>

record 'v CacheEntry =
  data :: 'v
  timestamp :: int

type_synonym 'v Cache = "(string \<times> 'v CacheEntry) list"

definition CACHE_TTL :: int where
  "CACHE_TTL = 5 * 60 * 1000"

definition getFromCache :: "int \<Rightarrow> string \<Rightarrow> 'v Cache \<Rightarrow> 'v option \<times> 'v Cache" where
  "getFromCache now key cache =
     (case map_of cache key of
        None \<Rightarrow> (None, cache)
      | Some cached \<Rightarrow>
          if now - timestamp cached > CACHE_TTL
          then (None, AList.delete key cache)
          else (Some (data cached), cache))"

definition setCache :: "int \<Rightarrow> string \<Rightarrow> 'v \<Rightarrow> 'v Cache \<Rightarrow> 'v Cache" where
  "setCache now key d cache =
     (let cache1 = AList.update key \<lparr>data = d, timestamp = now\<rparr> cache
      in if length cache1 > 100
         then (case cache1 of
                 [] \<Rightarrow> cache1
               | (oldestKey, _) # _ \<Rightarrow>
                   if oldestKey \<noteq> [] then AList.delete oldestKey cache1 else cache1)
         else cache1)"

definition clearCache :: "'v Cache" where
  "clearCache = []"

text \<open>
  \<open>filters\<close> is \<^verbatim>\<open>JSON.stringify(filters)\<close> when a filter object is given, \<open>None\<close> otherwise.
\<close>

definition generateCacheKey :: "string \<Rightarrow> string option \<Rightarrow> string" where
  "generateCacheKey prefix' filters =
     prefix' @ ''-'' @ (case filters of None \<Rightarrow> ''no-filters'' | Some filterStr \<Rightarrow> filterStr)"

section \<open>Public operations of the hierarchy service\<close>

datatype ServiceError = ServiceError string

text \<open>
  The answer of \<^verbatim>\<open>OptimizedSupabaseService.getHierarchicalData\<close>: a \<^verbatim>\<open>DatabaseResult\<close>, or a
  rejected promise (the circuit breaker throws a \<^verbatim>\<open>ServiceError\<close> when it is open).
\<close>

record 'a DatabaseResult =
  db_data :: "'a option"
  db_error :: "string option"

datatype 'a GatewayOutcome = Returns "'a DatabaseResult" | Throws Thrown

text \<open>
  The \<^verbatim>\<open>catch\<close> of \<^verbatim>\<open>getHierarchicalData\<close>:
  \<^verbatim>\<open>throw error instanceof ServiceError ? error : new ServiceError('Hierarchy service error', error)\<close>.
\<close>

definition rethrown :: "Thrown \<Rightarrow> ServiceError" where
  "rethrown thrown =
     (case thrown of
        ThrownServiceError msg \<Rightarrow> ServiceError msg
      | ThrownTypeError \<Rightarrow> ServiceError ''Hierarchy service error''
      | ThrownOther msg \<Rightarrow> ServiceError ''Hierarchy service error'')"

text \<open>
  \<open>now\<close> is the clock at the cache read, \<open>later\<close> the clock once the gateway has answered
  (build and cache write). The result pairs the value or the error with the cache afterwards.
  The whole body stands in the \<^verbatim>\<open>try\<close>, so a throw of the build is caught like one of the
  gateway.
\<close>

definition getHierarchicalData ::
    "int \<Rightarrow> int \<Rightarrow> string option \<Rightarrow> LiderWithHierarchy list GatewayOutcome
      \<Rightarrow> HierarchicalWorker list Cache
      \<Rightarrow> (ServiceError + HierarchicalWorker list) \<times> HierarchicalWorker list Cache" where
  "getHierarchicalData now later filters gateway cache =
     (let cacheKey = generateCacheKey ''hierarchical-data'' filters;
          (cached, cache1) = getFromCache now cacheKey cache
      in case cached of
           Some hit \<Rightarrow> (Inr hit, cache1)
         | None \<Rightarrow>
             (case gateway of
                Throws thrown \<Rightarrow> (Inl (rethrown thrown), cache1)
              | Returns result \<Rightarrow>
                  (case (db_error result, db_data result) of
                     (None, Some rows) \<Rightarrow>
                       (case transformToHierarchicalWorkers later rows of
                          Inl thrown \<Rightarrow> (Inl (rethrown thrown), cache1)
                        | Inr hierarchicalData \<Rightarrow>
                            (Inr hierarchicalData,
                             setCache later cacheKey hierarchicalData cache1))
                   | _ \<Rightarrow> (Inl (ServiceError ''Failed to fetch hierarchical data''), cache1))))"

subsection \<open>flattenHierarchy\<close>

definition withLevel :: "nat \<Rightarrow> HierarchicalWorker \<Rightarrow> HierarchicalWorker" where
  "withLevel level worker =
     HierarchicalWorker (hw_id worker) (hw_nombre worker) (hw_role worker)
       (hw_ciudadanosRegistrados worker) (hw_ubicacion worker) (hw_children worker)
       (hw_performance worker) (hw_parentId worker) (hw_isActive worker)
       (hw_lastActivity worker) (Some level)"

fun flatten :: "nat \<Rightarrow> HierarchicalWorker \<Rightarrow> HierarchicalWorker list" where
  "flatten level (HierarchicalWorker i n r c u ch p pid a la lv) =
     withLevel level (HierarchicalWorker i n r c u ch p pid a la lv)
       # concat (map (flatten (level + 1)) ch)"

definition flattenHierarchy :: "HierarchicalWorker list \<Rightarrow> HierarchicalWorker list" where
  "flattenHierarchy hierarchicalData = concat (map (flatten 0) hierarchicalData)"

definition getFlattenedHierarchy ::
    "int \<Rightarrow> int \<Rightarrow> string option \<Rightarrow> LiderWithHierarchy list GatewayOutcome
      \<Rightarrow> HierarchicalWorker list Cache
      \<Rightarrow> (ServiceError + HierarchicalWorker list) \<times> HierarchicalWorker list Cache" where
  "getFlattenedHierarchy now later filters gateway cache =
     (case getHierarchicalData now later filters gateway cache of
        (Inl e, cache1) \<Rightarrow> (Inl (ServiceError ''Failed to flatten hierarchy''), cache1)
      | (Inr hierarchicalData, cache1) \<Rightarrow> (Inr (flattenHierarchy hierarchicalData), cache1))"

subsection \<open>searchWorkers\<close>

text \<open>\<^verbatim>\<open>haystack.includes(needle)\<close>: the needle starts at some position of the haystack.\<close>

fun includes_str :: "JsString \<Rightarrow> JsString \<Rightarrow> bool" where
  "includes_str [] needle = (needle = [])"
| "includes_str (c # cs) needle = (prefix needle (c # cs) \<or> includes_str cs needle)"

text \<open>
  \<^verbatim>\<open>worker.nombre.toLowerCase().includes(searchLower)\<close>: no guard, so a \<^verbatim>\<open>nombre\<close> that is
  missing or not a string throws.
\<close>

definition nameIncludes :: "(JsString \<Rightarrow> JsString) \<Rightarrow> JsField \<Rightarrow> JsString \<Rightarrow> Thrown + bool" where
  "nameIncludes toLowerCase field searchLower =
     (case field of
        Str s \<Rightarrow> Inr (includes_str (toLowerCase s) searchLower)
      | Missing \<Rightarrow> Inl ThrownTypeError
      | NonString truthy \<Rightarrow> Inl ThrownTypeError)"

text \<open>
  \<^verbatim>\<open>field?.toLowerCase().includes(searchLower)\<close>: \<^verbatim>\<open>undefined\<close>, hence falsy, for a missing
  field; a value that is not a string throws.
\<close>

definition optIncludes :: "(JsString \<Rightarrow> JsString) \<Rightarrow> JsField \<Rightarrow> JsString \<Rightarrow> Thrown + bool" where
  "optIncludes toLowerCase field searchLower =
     (case field of
        Missing \<Rightarrow> Inr False
      | Str s \<Rightarrow> Inr (includes_str (toLowerCase s) searchLower)
      | NonString truthy \<Rightarrow> Inl ThrownTypeError)"

text \<open>\<^verbatim>\<open>a || b\<close>: \<open>b\<close> is evaluated only when \<open>a\<close> is falsy.\<close>

definition jsOr :: "Thrown + bool \<Rightarrow> Thrown + bool \<Rightarrow> Thrown + bool" where
  "jsOr a b = (case a of Inl e \<Rightarrow> Inl e | Inr x \<Rightarrow> if x then Inr True else b)"

text \<open>The predicate of the filter of \<^verbatim>\<open>searchWorkers\<close>.\<close>

definition searchMatches ::
    "(JsString \<Rightarrow> JsString) \<Rightarrow> JsString \<Rightarrow> HierarchicalWorker \<Rightarrow> Thrown + bool" where
  "searchMatches toLowerCase searchLower worker =
     jsOr (nameIncludes toLowerCase (hw_nombre worker) searchLower)
       (jsOr (optIncludes toLowerCase (entidad (hw_ubicacion worker)) searchLower)
          (jsOr (optIncludes toLowerCase (municipio (hw_ubicacion worker)) searchLower)
             (jsOr (optIncludes toLowerCase (colonia (hw_ubicacion worker)) searchLower)
                (optIncludes toLowerCase (seccion (hw_ubicacion worker)) searchLower))))"

definition searchFlattened ::
    "(JsString \<Rightarrow> JsString) \<Rightarrow> JsString \<Rightarrow> HierarchicalWorker list
      \<Rightarrow> Thrown + HierarchicalWorker list" where
  "searchFlattened toLowerCase searchTerm hierarchicalData =
     filterThrowing (searchMatches toLowerCase (toLowerCase searchTerm))
       (flattenHierarchy hierarchicalData)"

definition searchWorkers ::
    "(JsString \<Rightarrow> JsString) \<Rightarrow> int \<Rightarrow> int \<Rightarrow> JsString \<Rightarrow> string option
      \<Rightarrow> LiderWithHierarchy list GatewayOutcome \<Rightarrow> HierarchicalWorker list Cache
      \<Rightarrow> (ServiceError + HierarchicalWorker list) \<times> HierarchicalWorker list Cache" where
  "searchWorkers toLowerCase now later searchTerm filters gateway cache =
     (case getHierarchicalData now later filters gateway cache of
        (Inl e, cache1) \<Rightarrow> (Inl (ServiceError ''Failed to search workers''), cache1)
      | (Inr hierarchicalData, cache1) \<Rightarrow>
          (case searchFlattened toLowerCase searchTerm hierarchicalData of
             Inl thrown \<Rightarrow> (Inl (ServiceError ''Failed to search workers''), cache1)
           | Inr found \<Rightarrow> (Inr found, cache1)))"

subsection \<open>getWorkersByPerformance\<close>

datatype PerformanceLevel = Excellent | Good | Average | Poor

definition calculateOverallPerformanceScore :: "HierarchicalWorker \<Rightarrow> real" where
  "calculateOverallPerformanceScore worker =
     (let activityScore = (if hw_isActive worker then 100 else 0);
          registrationScore = min (real (hw_ciudadanosRegistrados worker) * 10) 100
      in (tasaVerificacion (hw_performance worker) + completitudDatos (hw_performance worker)
          + activityScore + registrationScore) / 4)"

fun inLevel :: "PerformanceLevel \<Rightarrow> real \<Rightarrow> bool" where
  "inLevel Excellent score = (score \<ge> 90)"
| "inLevel Good score = (score \<ge> 70 \<and> score < 90)"
| "inLevel Average score = (score \<ge> 50 \<and> score < 70)"
| "inLevel Poor score = (score < 50)"

definition workersByPerformance ::
    "PerformanceLevel \<Rightarrow> HierarchicalWorker list \<Rightarrow> HierarchicalWorker list" where
  "workersByPerformance level hierarchicalData =
     filter (\<lambda>worker. inLevel level (calculateOverallPerformanceScore worker))
       (flattenHierarchy hierarchicalData)"

definition getWorkersByPerformance ::
    "int \<Rightarrow> int \<Rightarrow> PerformanceLevel \<Rightarrow> string option \<Rightarrow> LiderWithHierarchy list GatewayOutcome
      \<Rightarrow> HierarchicalWorker list Cache
      \<Rightarrow> (ServiceError + HierarchicalWorker list) \<times> HierarchicalWorker list Cache" where
  "getWorkersByPerformance now later level filters gateway cache =
     (case getHierarchicalData now later filters gateway cache of
        (Inl e, cache1) \<Rightarrow> (Inl (ServiceError ''Failed to get workers by performance''), cache1)
      | (Inr hierarchicalData, cache1) \<Rightarrow> (Inr (workersByPerformance level hierarchicalData), cache1))"

subsection \<open>getHierarchyStats\<close>

record MostProductiveWorker =
  mp_id :: JsField
  mp_name :: JsField
  mp_role :: string
  mp_ciudadanos :: nat

text \<open>The local variables of \<^verbatim>\<open>getHierarchyStats\<close>, which its three nested loops update.\<close>

record StatsTotals =
  totalLideres :: nat
  totalBrigadistas :: nat
  totalMovilizadores :: nat
  totalCiudadanos :: nat
  mostProductiveWorker :: MostProductiveWorker
  deepestLevel :: nat

text \<open>
  The value of a JavaScript division: a finite number, \<^verbatim>\<open>NaN\<close> (0/0) or \<^verbatim>\<open>Infinity\<close>
  (a positive number over 0). The operands here are counts, so they are never negative.
\<close>

datatype JsNumber = Finite real | NaN | Infinity

definition jsDivide :: "nat \<Rightarrow> nat \<Rightarrow> JsNumber" where
  "jsDivide a b = (if b = 0 then (if a = 0 then NaN else Infinity) else Finite (real a / real b))"

record HierarchyStats = StatsTotals +
  averageCiudadanosPorLider :: JsNumber
  averageCiudadanosPorBrigadista :: JsNumber
  averageCiudadanosPorMovilizador :: JsNumber

definition moreProductive ::
    "HierarchicalWorker \<Rightarrow> string \<Rightarrow> MostProductiveWorker \<Rightarrow> MostProductiveWorker" where
  "moreProductive worker roleName best =
     (if hw_ciudadanosRegistrados worker > mp_ciudadanos best
      then \<lparr>mp_id = hw_id worker, mp_name = hw_nombre worker, mp_role = roleName,
            mp_ciudadanos = hw_ciudadanosRegistrados worker\<rparr>
      else best)"

definition visitMovilizador :: "StatsTotals \<Rightarrow> HierarchicalWorker \<Rightarrow> StatsTotals" where
  "visitMovilizador acc movilizador =
     acc\<lparr>totalMovilizadores := totalMovilizadores acc + 1,
         deepestLevel := max (deepestLevel acc) 3,
         totalCiudadanos := totalCiudadanos acc + hw_ciudadanosRegistrados movilizador,
         mostProductiveWorker := moreProductive movilizador ''movilizador'' (mostProductiveWorker acc)\<rparr>"

definition visitBrigadista :: "StatsTotals \<Rightarrow> HierarchicalWorker \<Rightarrow> StatsTotals" where
  "visitBrigadista acc brigadista =
     foldl visitMovilizador
       (acc\<lparr>totalBrigadistas := totalBrigadistas acc + 1,
            deepestLevel := max (deepestLevel acc) 2,
            mostProductiveWorker := moreProductive brigadista ''brigadista'' (mostProductiveWorker acc)\<rparr>)
       (hw_children brigadista)"

definition visitLider :: "StatsTotals \<Rightarrow> HierarchicalWorker \<Rightarrow> StatsTotals" where
  "visitLider acc lider =
     foldl visitBrigadista
       (acc\<lparr>totalLideres := totalLideres acc + 1,
            mostProductiveWorker := moreProductive lider ''lider'' (mostProductiveWorker acc)\<rparr>)
       (hw_children lider)"

definition initialTotals :: StatsTotals where
  "initialTotals =
     \<lparr>totalLideres = 0, totalBrigadistas = 0, totalMovilizadores = 0, totalCiudadanos = 0,
      mostProductiveWorker = \<lparr>mp_id = Str [], mp_name = Str [], mp_role = [], mp_ciudadanos = 0\<rparr>,
      deepestLevel = 1\<rparr>"

definition hierarchyStats :: "HierarchicalWorker list \<Rightarrow> HierarchyStats" where
  "hierarchyStats hierarchicalData =
     (let t = foldl visitLider initialTotals hierarchicalData
      in StatsTotals.extend t
           \<lparr>averageCiudadanosPorLider =
              (if totalLideres t > 0 then jsDivide (totalCiudadanos t) (totalLideres t) else Finite 0),
            averageCiudadanosPorBrigadista =
              (if totalBrigadistas t > 0 then jsDivide (totalCiudadanos t) (totalBrigadistas t)
               else Finite 0),
            averageCiudadanosPorMovilizador =
              (if totalMovilizadores t > 0 then jsDivide (totalCiudadanos t) (totalMovilizadores t)
               else Finite 0)\<rparr>)"

definition getHierarchyStats ::
    "int \<Rightarrow> int \<Rightarrow> string option \<Rightarrow> LiderWithHierarchy list GatewayOutcome
      \<Rightarrow> HierarchicalWorker list Cache
      \<Rightarrow> (ServiceError + HierarchyStats) \<times> HierarchicalWorker list Cache" where
  "getHierarchyStats now later filters gateway cache =
     (case getHierarchicalData now later filters gateway cache of
        (Inl e, cache1) \<Rightarrow> (Inl (ServiceError ''Failed to calculate hierarchy statistics''), cache1)
      | (Inr hierarchicalData, cache1) \<Rightarrow> (Inr (hierarchyStats hierarchicalData), cache1))"

section \<open>Ranking pass of the worker analytics service\<close>

text \<open>
  \<^verbatim>\<open>WorkerAnalytics\<close> of \<^verbatim>\<open>src/types/analytics.ts\<close> repeats the six fields of
  \<open>PerformanceMetrics\<close> and adds five; the record extends it, so the field names are the source's.
  \<^verbatim>\<open>rendimientoTemporal\<close> is what \<^verbatim>\<open>getWorkerTemporalPerformance\<close> returns, the empty array.
\<close>

record WorkerAnalytics = PerformanceMetrics +
  workerId :: JsField
  workerName :: JsField
  role :: Role
  ubicacionGeografica :: LocationInfo
  rendimientoTemporal :: "nat list"

definition calculateWorkerScore :: "'a PerformanceMetrics_scheme \<Rightarrow> real" where
  "calculateWorkerScore worker =
     (tasaVerificacion worker + completitudDatos worker + real (ciudadanosRegistrados worker) * 2) / 4"

definition toWorkerAnalytics :: "nat \<Rightarrow> HierarchicalWorker \<Rightarrow> WorkerAnalytics" where
  "toWorkerAnalytics index worker =
     \<lparr>ciudadanosRegistrados = hw_ciudadanosRegistrados worker,
      tasaVerificacion = tasaVerificacion (hw_performance worker),
      completitudDatos = completitudDatos (hw_performance worker),
      ranking = index + 1,
      tendencia = tendencia (hw_performance worker),
      ultimaActividad = ultimaActividad (hw_performance worker),
      workerId = hw_id worker,
      workerName = hw_nombre worker,
      role = hw_role worker,
      ubicacionGeografica = hw_ubicacion worker,
      rendimientoTemporal = []\<rparr>"

text \<open>
  \<^verbatim>\<open>analytics.sort((a, b) => score(b) - score(a))\<close>: \<^verbatim>\<open>Array.prototype.sort\<close> is stable, and so is
  \<open>sort_key\<close>; the key is the negated score, for the descending order.
\<close>

definition sortedAnalytics :: "WorkerAnalytics list \<Rightarrow> WorkerAnalytics list" where
  "sortedAnalytics analytics = sort_key (\<lambda>a. - calculateWorkerScore a) analytics"

definition updateRankings :: "WorkerAnalytics list \<Rightarrow> WorkerAnalytics list" where
  "updateRankings sorted_ws =
     map (\<lambda>(index, worker). worker\<lparr>ranking := index + 1\<rparr>) (enumerate 0 sorted_ws)"

text \<open>The body of \<^verbatim>\<open>getWorkerAnalytics\<close>, on the flattened workers it is given.\<close>

definition rankWorkers :: "HierarchicalWorker list \<Rightarrow> WorkerAnalytics list" where
  "rankWorkers hierarchicalData =
     updateRankings
       (sortedAnalytics
          (map (\<lambda>(index, worker). toWorkerAnalytics index worker) (enumerate 0 hierarchicalData)))"

text \<open>
  The import of the hierarchy service is disabled in the source; the stand-in
  \<^verbatim>\<open>getFlattenedHierarchyTemp\<close> returns the empty array.
\<close>

definition getFlattenedHierarchyTemp :: "HierarchicalWorker list" where
  "getFlattenedHierarchyTemp = []"

definition getWorkerAnalytics :: "WorkerAnalytics list" where
  "getWorkerAnalytics = rankWorkers getFlattenedHierarchyTemp"

section \<open>Example inputs\<close>

definition exampleRow :: "JsField \<Rightarrow> JsField \<Rightarrow> WorkerRow" where
  "exampleRow i n =
     \<lparr>entidad = Str (ascii ''Puebla''), municipio = Missing, seccion = Missing, colonia = Missing,
      codigo_postal = Str (ascii ''72000''), id_row = i, nombre = n, clave_electoral = Missing,
      curp = Missing, direccion = Missing, numero_cel = Missing, num_verificado = True,
      created_at = Some 0\<rparr>"

definition fullRow :: WorkerRow where
  "fullRow =
     \<lparr>entidad = Str (ascii ''Puebla''), municipio = Str (ascii ''Atlixco''),
      seccion = Str (ascii ''0042''), colonia = Str (ascii ''Centro''),
      codigo_postal = Str (ascii ''74200''), id_row = Str (ascii ''l1''),
      nombre = Str (ascii ''Ana''), clave_electoral = Str (ascii ''CE1''),
      curp = Str (ascii ''CURP1''), direccion = Str (ascii ''Calle 1''),
      numero_cel = Str (ascii ''555''), num_verificado = True, created_at = Some 0\<rparr>"

text \<open>
  A row without a populated field: missing values, the empty string, blanks, a tab and a line
  feed, a no-break space (U+00A0), a byte order mark (U+FEFF), a line separator (U+2028), an
  ideographic space (U+3000), an en quad (U+2000) and the falsy values \<^verbatim>\<open>0\<close> or \<^verbatim>\<open>false\<close>.
\<close>

definition blankRow :: WorkerRow where
  "blankRow =
     \<lparr>entidad = Missing, municipio = Str [], seccion = Str (ascii ''  ''), colonia = Str [9, 10],
      codigo_postal = Str [160], id_row = Str (ascii ''l2''), nombre = Str [65279],
      clave_electoral = Str [8232], curp = Str [12288, 32], direccion = Str [8192],
      numero_cel = NonString False, num_verificado = False, created_at = Some 0\<rparr>"

text \<open>A row whose \<^verbatim>\<open>seccion\<close> holds a number, 42 say, instead of a string.\<close>

definition numericSeccionRow :: WorkerRow where
  "numericSeccionRow = (exampleRow (Str (ascii ''l3'')) (Str (ascii ''Luz'')))\<lparr>seccion := NonString True\<rparr>"

definition movilizadorRow :: "string \<Rightarrow> nat \<Rightarrow> MovilizadorWithHierarchy" where
  "movilizadorRow i k =
     WorkerRow.extend (exampleRow (Str (ascii i)) (Str (ascii i)))
       \<lparr>ciudadanos = Some (replicate k (exampleRow (Str (ascii ''c'')) (Str (ascii ''c''))))\<rparr>"

definition brigadistaRow :: "string \<Rightarrow> MovilizadorWithHierarchy list \<Rightarrow> BrigadistaWithHierarchy" where
  "brigadistaRow i ms =
     WorkerRow.extend (exampleRow (Str (ascii i)) (Str (ascii i))) \<lparr>movilizadores = Array ms\<rparr>"

definition liderRow :: "string \<Rightarrow> BrigadistaWithHierarchy list \<Rightarrow> LiderWithHierarchy" where
  "liderRow i bs =
     WorkerRow.extend (exampleRow (Str (ascii i)) (Str (ascii i))) \<lparr>brigadistas = Array bs\<rparr>"

text \<open>
  One lider with two brigadistas, each with one movilizador, of 3 and 7 ciudadanos.
\<close>

definition scenarioRows :: "LiderWithHierarchy list" where
  "scenarioRows =
     [liderRow ''L'' [brigadistaRow ''B1'' [movilizadorRow ''M1'' 3],
                      brigadistaRow ''B2'' [movilizadorRow ''M2'' 7]]]"

text \<open>A lider row without \<^verbatim>\<open>id\<close>, without \<^verbatim>\<open>nombre\<close> and without brigadistas.\<close>

definition malformedRows :: "LiderWithHierarchy list" where
  "malformedRows = [WorkerRow.extend (exampleRow Missing Missing) \<lparr>brigadistas = NoArray\<rparr>]"

text \<open>A lider row without brigadistas whose \<^verbatim>\<open>seccion\<close> holds a number.\<close>

definition untypedRows :: "LiderWithHierarchy list" where
  "untypedRows = [WorkerRow.extend numericSeccionRow \<lparr>brigadistas = NoArray\<rparr>]"

definition gatewayRows :: "LiderWithHierarchy list \<Rightarrow> LiderWithHierarchy list GatewayOutcome" where
  "gatewayRows rows = Returns \<lparr>db_data = Some rows, db_error = None\<rparr>"

text \<open>
  Example nodes: \<open>exampleWorker name count verification completeness active\<close> is a lider without
  children.
\<close>

definition exampleWorker :: "string \<Rightarrow> nat \<Rightarrow> real \<Rightarrow> real \<Rightarrow> bool \<Rightarrow> HierarchicalWorker" where
  "exampleWorker name k verification completeness active =
     HierarchicalWorker (Str (ascii name)) (Str (ascii name)) Lider k
       \<lparr>entidad = Str (ascii ''Puebla''), municipio = Missing, seccion = Missing,
        colonia = Missing, codigo_postal = Str (ascii ''72000'')\<rparr> []
       \<lparr>ciudadanosRegistrados = k, tasaVerificacion = verification,
        completitudDatos = completeness, ranking = 0, tendencia = Stable,
        ultimaActividad = Some 0\<rparr>
       Missing active (Some 0) None"

text \<open>A lider node without \<^verbatim>\<open>id\<close> and without \<^verbatim>\<open>nombre\<close>, as built from such a row.\<close>

definition namelessWorker :: HierarchicalWorker where
  "namelessWorker =
     HierarchicalWorker Missing Missing Lider 0
       \<lparr>entidad = Str (ascii ''Puebla''), municipio = Missing, seccion = Missing,
        colonia = Missing, codigo_postal = Str (ascii ''72000'')\<rparr> []
       \<lparr>ciudadanosRegistrados = 0, tasaVerificacion = 100, completitudDatos = 20, ranking = 0,
        tendencia = Up, ultimaActividad = Some 0\<rparr>
       Missing True (Some 0) None"

text \<open>
  \<^verbatim>\<open>String.prototype.toLowerCase\<close> on strings of ASCII code units, where it turns \<^verbatim>\<open>A\<close> to
  \<^verbatim>\<open>Z\<close> (65 to 90) into \<^verbatim>\<open>a\<close> to \<^verbatim>\<open>z\<close> and keeps every other unit. It stands for the
  parameter \<open>toLowerCase\<close> in the examples, all of whose strings are ASCII.
\<close>

definition asciiLower :: "JsString \<Rightarrow> JsString" where
  "asciiLower s = map (\<lambda>c. if 65 \<le> c \<and> c \<le> 90 then c + 32 else c) s"

text \<open>
  The tree of the scenario at clock 0: every row of the scenario has three of the ten fields
  populated, is verified and was created at time 0.
\<close>

definition scenarioNode ::
    "string \<Rightarrow> Role \<Rightarrow> nat \<Rightarrow> HierarchicalWorker list \<Rightarrow> JsField \<Rightarrow> HierarchicalWorker" where
  "scenarioNode i r k children parentId =
     HierarchicalWorker (Str (ascii i)) (Str (ascii i)) r k
       \<lparr>entidad = Str (ascii ''Puebla''), municipio = Missing, seccion = Missing,
        colonia = Missing, codigo_postal = Str (ascii ''72000'')\<rparr> children
       \<lparr>ciudadanosRegistrados = k, tasaVerificacion = 100, completitudDatos = 30, ranking = 0,
        tendencia = Up, ultimaActividad = Some 0\<rparr>
       parentId True (Some 0) None"

definition scenarioTree :: "HierarchicalWorker list" where
  "scenarioTree =
     [scenarioNode ''L'' Lider 10
        [scenarioNode ''B1'' Brigadista 3
           [scenarioNode ''M1'' Movilizador 3 [] (Str (ascii ''B1''))] (Str (ascii ''L'')),
         scenarioNode ''B2'' Brigadista 7
           [scenarioNode ''M2'' Movilizador 7 [] (Str (ascii ''B2''))] (Str (ascii ''L''))]
        Missing]"

section \<open>Notions of the specification\<close>

text \<open>
  The level-3 (movilizador) nodes in the subtree of a node, the node itself included, in
  pre-order.
\<close>

fun movilizadorNodes :: "HierarchicalWorker \<Rightarrow> HierarchicalWorker list" where
  "movilizadorNodes (HierarchicalWorker i n r c u ch p pid a la lv) =
     (if r = Movilizador then [HierarchicalWorker i n r c u ch p pid a la lv] else [])
       @ concat (map movilizadorNodes ch)"

text \<open>The rows of a relation, and the movilizador rows of the gateway's answer in its order.\<close>

definition rowsOf :: "'a JsArray \<Rightarrow> 'a list" where
  "rowsOf x = (case x of Array xs \<Rightarrow> xs | _ \<Rightarrow> [])"

definition movilizadorRows :: "LiderWithHierarchy list \<Rightarrow> MovilizadorWithHierarchy list" where
  "movilizadorRows rows =
     concat (map (\<lambda>b. rowsOf (movilizadores b)) (concat (map (\<lambda>l. rowsOf (brigadistas l)) rows)))"

text \<open>The leaf rows (ciudadanos) of a movilizador row.\<close>

definition leafRows :: "MovilizadorWithHierarchy \<Rightarrow> CiudadanosRow list" where
  "leafRows m = (case ciudadanos m of None \<Rightarrow> [] | Some cs \<Rightarrow> cs)"

text \<open>
  Malformed input, in the specification's words: a row that misses a required identity or name
  field, at any level of the nesting.
\<close>

definition rowMalformed :: "'a WorkerRow_scheme \<Rightarrow> bool" where
  "rowMalformed r = (id_row r = Missing \<or> nombre r = Missing)"

definition malformedInput :: "LiderWithHierarchy list \<Rightarrow> bool" where
  "malformedInput rows =
     list_ex (\<lambda>l. rowMalformed l \<or>
        list_ex (\<lambda>b. rowMalformed b \<or>
           list_ex (\<lambda>m. rowMalformed m \<or> list_ex rowMalformed (leafRows m))
             (rowsOf (movilizadores b)))
          (rowsOf (brigadistas l)))
       rows"

text \<open>
  A row with its identity and name fields removed, and a lider row with them removed at every
  level of the nesting.
\<close>

definition withoutIdentity :: "'a WorkerRow_scheme \<Rightarrow> 'a WorkerRow_scheme" where
  "withoutIdentity r = r\<lparr>id_row := Missing, nombre := Missing\<rparr>"

definition brigadistaWithoutIdentity :: "BrigadistaWithHierarchy \<Rightarrow> BrigadistaWithHierarchy" where
  "brigadistaWithoutIdentity b =
     withoutIdentity
       (b\<lparr>movilizadores :=
            (case movilizadores b of Array ms \<Rightarrow> Array (map withoutIdentity ms) | other \<Rightarrow> other)\<rparr>)"

definition liderWithoutIdentity :: "LiderWithHierarchy \<Rightarrow> LiderWithHierarchy" where
  "liderWithoutIdentity l =
     withoutIdentity
       (l\<lparr>brigadistas :=
            (case brigadistas l of
               Array bs \<Rightarrow> Array (map brigadistaWithoutIdentity bs)
             | other \<Rightarrow> other)\<rparr>)"

text \<open>
  The values on which the build does not throw. In a row, none of the ten fields that
  \<^verbatim>\<open>calculateDataCompleteness\<close> reads holds a truthy value that is not a string; \<^verbatim>\<open>id\<close> is not
  among them, and a missing \<^verbatim>\<open>nombre\<close> is allowed. The \<^verbatim>\<open>movilizadores\<close> of a brigadista are an
  array or nothing, the \<^verbatim>\<open>brigadistas\<close> of a lider an array, nothing or a falsy value.
\<close>

definition stringOrFalsy :: "JsField \<Rightarrow> bool" where
  "stringOrFalsy f = (f \<noteq> NonString True)"

definition fieldsTyped :: "'a WorkerRow_scheme \<Rightarrow> bool" where
  "fieldsTyped r =
     (stringOrFalsy (nombre r) \<and> stringOrFalsy (clave_electoral r) \<and> stringOrFalsy (curp r)
      \<and> stringOrFalsy (direccion r) \<and> stringOrFalsy (colonia r)
      \<and> stringOrFalsy (codigo_postal r) \<and> stringOrFalsy (seccion r)
      \<and> stringOrFalsy (entidad r) \<and> stringOrFalsy (municipio r)
      \<and> stringOrFalsy (numero_cel r))"

definition brigadistaBuildable :: "BrigadistaWithHierarchy \<Rightarrow> bool" where
  "brigadistaBuildable b =
     (fieldsTyped b \<and>
      (case movilizadores b of
         NoArray \<Rightarrow> True
       | Array ms \<Rightarrow> list_all fieldsTyped ms
       | NonArray truthy \<Rightarrow> False))"

definition liderBuildable :: "LiderWithHierarchy \<Rightarrow> bool" where
  "liderBuildable l =
     (fieldsTyped l \<and>
      (case brigadistas l of
         NoArray \<Rightarrow> True
       | Array bs \<Rightarrow> list_all brigadistaBuildable bs
       | NonArray truthy \<Rightarrow> \<not> truthy))"

text \<open>
  A populated field, in the specification's words: present, and not blank once the surrounding
  white space is trimmed, that is, a string with a code unit that is not white space. The count
  is over the ten fixed fields of the specification: name, electoral key, national id, address,
  locality, postal code, sector, region, sub-region and phone.
\<close>

definition presentNonBlank :: "JsField \<Rightarrow> bool" where
  "presentNonBlank f = (case f of Str s \<Rightarrow> list_ex (\<lambda>c. \<not> isWhitespace c) s | _ \<Rightarrow> False)"

definition populatedCount :: "'a WorkerRow_scheme \<Rightarrow> nat" where
  "populatedCount r =
     of_bool (presentNonBlank (nombre r)) + of_bool (presentNonBlank (clave_electoral r))
     + of_bool (presentNonBlank (curp r)) + of_bool (presentNonBlank (direccion r))
     + of_bool (presentNonBlank (colonia r)) + of_bool (presentNonBlank (codigo_postal r))
     + of_bool (presentNonBlank (seccion r)) + of_bool (presentNonBlank (entidad r))
     + of_bool (presentNonBlank (municipio r)) + of_bool (presentNonBlank (numero_cel r))"

text \<open>
  The composite score, from the specification's formula:
  \<^verbatim>\<open>(verificationRate + dataCompleteness + activityScore + registrationScore) / 4\<close> with
  \<^verbatim>\<open>activityScore = isActive ? 100 : 0\<close> and \<^verbatim>\<open>registrationScore = min(registeredCount * 10, 100)\<close>.
\<close>

definition compositeScore :: "real \<Rightarrow> real \<Rightarrow> bool \<Rightarrow> nat \<Rightarrow> real" where
  "compositeScore verificationRate dataCompleteness active registeredCount =
     (verificationRate + dataCompleteness + (if active then 100 else 0)
      + min (real registeredCount * 10) 100) / 4"

definition compositeScoreOf :: "HierarchicalWorker \<Rightarrow> real" where
  "compositeScoreOf worker =
     compositeScore (tasaVerificacion (hw_performance worker))
       (completitudDatos (hw_performance worker)) (hw_isActive worker)
       (hw_ciudadanosRegistrados worker)"

text \<open>
  The ranking of the specification: \<^verbatim>\<open>index + 1\<close> over the workers sorted in descending order
  of the composite score, as pairs of a worker's id and its ranking.
\<close>

definition rankingByCompositeScore :: "HierarchicalWorker list \<Rightarrow> (JsField \<times> nat) list" where
  "rankingByCompositeScore flattened =
     map (\<lambda>(index, worker). (hw_id worker, index + 1))
       (enumerate 0 (sort_key (\<lambda>worker. - compositeScoreOf worker) flattened))"

text \<open>
  The score of the ranking pass, as a formula of the three numbers it reads:
  (verification rate + data completeness + 2 * registered count) / 4.
\<close>

definition rankingScore :: "real \<Rightarrow> real \<Rightarrow> nat \<Rightarrow> real" where
  "rankingScore verificationRate dataCompleteness registeredCount =
     (verificationRate + dataCompleteness + 2 * real registeredCount) / 4"

text \<open>
  Search, in the specification's words: a field contains the term as a case-insensitive
  substring, that is, the case-normalised term is a contiguous sublist of the case-normalised
  field; a node matches when its name or any populated field of a list of location fields does.
\<close>

definition containsIgnoringCase :: "(JsString \<Rightarrow> JsString) \<Rightarrow> JsString \<Rightarrow> JsString \<Rightarrow> bool" where
  "containsIgnoringCase toLowerCase field searchTerm =
     sublist (toLowerCase searchTerm) (toLowerCase field)"

definition anyContains :: "(JsString \<Rightarrow> JsString) \<Rightarrow> JsField list \<Rightarrow> JsString \<Rightarrow> bool" where
  "anyContains toLowerCase fs searchTerm =
     list_ex (\<lambda>f. case f of Str s \<Rightarrow> containsIgnoringCase toLowerCase s searchTerm | _ \<Rightarrow> False) fs"

text \<open>Name, region, sub-region, sector, locality and postal code.\<close>

definition specSearchMatches :: "(JsString \<Rightarrow> JsString) \<Rightarrow> JsString \<Rightarrow> HierarchicalWorker \<Rightarrow> bool" where
  "specSearchMatches toLowerCase searchTerm worker =
     anyContains toLowerCase
       [hw_nombre worker, entidad (hw_ubicacion worker), municipio (hw_ubicacion worker),
        seccion (hw_ubicacion worker), colonia (hw_ubicacion worker),
        codigo_postal (hw_ubicacion worker)]
       searchTerm"

text \<open>
  A node as its type declares it, as far as the search reads it: the name is a string, and each
  of the four location fields searched is a string or missing.
\<close>

definition named :: "HierarchicalWorker \<Rightarrow> bool" where
  "named worker = (case hw_nombre worker of Str n \<Rightarrow> True | _ \<Rightarrow> False)"

definition stringOrMissing :: "JsField \<Rightarrow> bool" where
  "stringOrMissing f = (case f of NonString truthy \<Rightarrow> False | _ \<Rightarrow> True)"

definition searchTyped :: "HierarchicalWorker \<Rightarrow> bool" where
  "searchTyped worker =
     (named worker
      \<and> stringOrMissing (entidad (hw_ubicacion worker))
      \<and> stringOrMissing (municipio (hw_ubicacion worker))
      \<and> stringOrMissing (colonia (hw_ubicacion worker))
      \<and> stringOrMissing (seccion (hw_ubicacion worker)))"

text \<open>All the nodes of a tree, in pre-order.\<close>

fun subtreeNodes :: "HierarchicalWorker \<Rightarrow> HierarchicalWorker list" where
  "subtreeNodes (HierarchicalWorker i n r c u ch p pid a la lv) =
     HierarchicalWorker i n r c u ch p pid a la lv # concat (map subtreeNodes ch)"

text \<open>The nodes of a tree by level: the roots, their children, and the children of these.\<close>

definition level2Nodes :: "HierarchicalWorker list \<Rightarrow> HierarchicalWorker list" where
  "level2Nodes tree = concat (map hw_children tree)"

definition level3Nodes :: "HierarchicalWorker list \<Rightarrow> HierarchicalWorker list" where
  "level3Nodes tree = concat (map hw_children (level2Nodes tree))"

text \<open>The four counters of the statistics loop, as a tuple.\<close>

definition counters :: "'a StatsTotals_scheme \<Rightarrow> nat \<times> nat \<times> nat \<times> nat" where
  "counters t = (totalLideres t, totalBrigadistas t, totalMovilizadores t, totalCiudadanos t)"

text \<open>
  A node and all its descendants have \<^verbatim>\<open>performance.ranking\<close> 0; a cache all of whose trees are
  made of such nodes.
\<close>

fun rankingZero :: "HierarchicalWorker \<Rightarrow> bool" where
  "rankingZero (HierarchicalWorker i n r c u ch p pid a la lv) =
     (ranking p = 0 \<and> list_all rankingZero ch)"

definition cacheRankingZero :: "HierarchicalWorker list Cache \<Rightarrow> bool" where
  "cacheRankingZero cache = list_all (\<lambda>(key, cached). list_all rankingZero (data cached)) cache"

section \<open>Properties\<close>

subsection \<open>Exceptions\<close>

lemma filterThrowing_total:
  "\<forall>x \<in> set xs. P x = Inr (Q x) \<Longrightarrow> filterThrowing P xs = Inr (filter Q xs)"
  by (induction xs) simp_all

lemma filterThrowing_throws:
  "\<exists>x \<in> set xs. P x = Inl e \<Longrightarrow> \<forall>x \<in> set xs. \<forall>e'. P x = Inl e' \<longrightarrow> e' = e \<Longrightarrow>
   filterThrowing P xs = Inl e"
proof (induction xs)
  case Nil
  then show ?case by simp
next
  case (Cons a xs)
  show ?case
  proof (cases "P a")
    case (Inl e')
    with Cons.prems(2) have "e' = e" by simp
    with Inl show ?thesis by simp
  next
    case (Inr b)
    with Cons.prems(1) have "\<exists>x \<in> set xs. P x = Inl e" by auto
    with Cons.IH Cons.prems(2) have "filterThrowing P xs = Inl e" by simp
    with Inr show ?thesis by simp
  qed
qed

subsection \<open>Strings\<close>

lemma trim_empty_iff: "trim s = [] \<longleftrightarrow> list_all isWhitespace s"
proof
  assume "trim s = []"
  then have "\<forall>c \<in> set (dropWhile isWhitespace s). isWhitespace c"
    by (simp add: trim_def)
  then have "dropWhile isWhitespace s = []"
    by (metis hd_dropWhile list.set_sel(1))
  then show "list_all isWhitespace s"
    by (simp add: list_all_iff)
next
  assume "list_all isWhitespace s"
  then have "dropWhile isWhitespace s = []"
    by (simp add: list_all_iff)
  then show "trim s = []"
    by (simp add: trim_def del: dropWhile_eq_Nil_conv)
qed

subsection \<open>Data completeness\<close>

lemma fieldCompleted_typed:
  "stringOrFalsy f \<Longrightarrow> fieldCompleted f = Inr (presentNonBlank f)"
  by (cases f)
     (auto simp: fieldCompleted_def presentNonBlank_def stringOrFalsy_def trim_empty_iff
        list_all_iff list_ex_iff)

lemma fieldCompleted_throws:
  "fieldCompleted f = Inl e \<longleftrightarrow> f = NonString True \<and> e = ThrownTypeError"
  by (cases f) (auto simp: fieldCompleted_def)

lemma fieldsTyped_iff: "fieldsTyped r \<longleftrightarrow> (\<forall>f \<in> set (fields_of r). stringOrFalsy f)"
  by (auto simp: fieldsTyped_def fields_of_def)

lemma length_filter_presentNonBlank:
  "length (filter presentNonBlank (fields_of r)) = populatedCount r"
  by (simp add: fields_of_def populatedCount_def)

lemma populatedCount_le: "populatedCount r \<le> 10"
  using length_filter_le [of presentNonBlank "fields_of r"]
  by (simp only: length_filter_presentNonBlank) (simp add: fields_of_def)

lemma calculateDataCompleteness_typed:
  assumes "fieldsTyped r"
  shows "calculateDataCompleteness r = Inr (100 * real (populatedCount r) / 10)"
proof -
  from assms have "\<forall>f \<in> set (fields_of r). fieldCompleted f = Inr (presentNonBlank f)"
    by (simp add: fieldsTyped_iff fieldCompleted_typed)
  then have "filterThrowing fieldCompleted (fields_of r) = Inr (filter presentNonBlank (fields_of r))"
    by (rule filterThrowing_total)
  then show ?thesis
    by (simp add: calculateDataCompleteness_def andThen_def length_filter_presentNonBlank)
       (simp add: fields_of_def)
qed

lemma calculateDataCompleteness_untyped:
  assumes "\<not> fieldsTyped r"
  shows "calculateDataCompleteness r = Inl ThrownTypeError"
proof -
  from assms have "NonString True \<in> set (fields_of r)"
    by (auto simp: fieldsTyped_iff stringOrFalsy_def)
  moreover have "fieldCompleted (NonString True) = Inl ThrownTypeError"
    by (simp add: fieldCompleted_def)
  ultimately have "\<exists>f \<in> set (fields_of r). fieldCompleted f = Inl ThrownTypeError"
    by blast
  moreover have "\<forall>f \<in> set (fields_of r). \<forall>e'. fieldCompleted f = Inl e' \<longrightarrow> e' = ThrownTypeError"
    by (simp add: fieldCompleted_throws)
  ultimately have "filterThrowing fieldCompleted (fields_of r) = Inl ThrownTypeError"
    by (rule filterThrowing_throws)
  then show ?thesis
    by (simp add: calculateDataCompleteness_def andThen_def)
qed

text \<open>
  Claim C7, as amended. For every source record none of whose ten fixed fields holds a truthy
  value that is not a string, \<open>calculateDataCompleteness\<close> returns 100 times the number of the
  ten fields (name, electoral key, national id, address, locality, postal code, sector, region,
  sub-region, phone) that are present and non-blank after trimming, divided by 10. The result
  lies between 0 and 100; it is exactly 100 when all ten fields are populated and exactly 0 when
  none is (each field missing, empty, falsy or only white space). On any other record the
  function throws.
\<close>

theorem calculateDataCompleteness_spec:
  "(fieldsTyped r \<longrightarrow>
      calculateDataCompleteness r = Inr (100 * real (populatedCount r) / 10)
      \<and> (\<exists>score. calculateDataCompleteness r = Inr score \<and> 0 \<le> score \<and> score \<le> 100))
   \<and> (fieldsTyped r \<and> presentNonBlank (nombre r) \<and> presentNonBlank (clave_electoral r)
        \<and> presentNonBlank (curp r) \<and> presentNonBlank (direccion r)
        \<and> presentNonBlank (colonia r) \<and> presentNonBlank (codigo_postal r)
        \<and> presentNonBlank (seccion r) \<and> presentNonBlank (entidad r)
        \<and> presentNonBlank (municipio r) \<and> presentNonBlank (numero_cel r)
      \<longrightarrow> calculateDataCompleteness r = Inr 100)
   \<and> (fieldsTyped r \<and> \<not> presentNonBlank (nombre r) \<and> \<not> presentNonBlank (clave_electoral r)
        \<and> \<not> presentNonBlank (curp r) \<and> \<not> presentNonBlank (direccion r)
        \<and> \<not> presentNonBlank (colonia r) \<and> \<not> presentNonBlank (codigo_postal r)
        \<and> \<not> presentNonBlank (seccion r) \<and> \<not> presentNonBlank (entidad r)
        \<and> \<not> presentNonBlank (municipio r) \<and> \<not> presentNonBlank (numero_cel r)
      \<longrightarrow> calculateDataCompleteness r = Inr 0)
   \<and> (\<not> fieldsTyped r \<longrightarrow> calculateDataCompleteness r = Inl ThrownTypeError)"
proof -
  have val: "calculateDataCompleteness r = Inr (100 * real (populatedCount r) / 10)"
    if "fieldsTyped r"
    using that by (rule calculateDataCompleteness_typed)
  have range: "\<exists>score. calculateDataCompleteness r = Inr score \<and> 0 \<le> score \<and> score \<le> 100"
    if "fieldsTyped r"
    using val [OF that] populatedCount_le [of r] by simp
  have full: "calculateDataCompleteness r = Inr 100"
    if "fieldsTyped r" "presentNonBlank (nombre r)" "presentNonBlank (clave_electoral r)"
      "presentNonBlank (curp r)" "presentNonBlank (direccion r)" "presentNonBlank (colonia r)"
      "presentNonBlank (codigo_postal r)" "presentNonBlank (seccion r)"
      "presentNonBlank (entidad r)" "presentNonBlank (municipio r)"
      "presentNonBlank (numero_cel r)"
  proof -
    from that have "populatedCount r = 10"
      by (simp add: populatedCount_def)
    with val [OF that(1)] show ?thesis by simp
  qed
  have none: "calculateDataCompleteness r = Inr 0"
    if "fieldsTyped r" "\<not> presentNonBlank (nombre r)" "\<not> presentNonBlank (clave_electoral r)"
      "\<not> presentNonBlank (curp r)" "\<not> presentNonBlank (direccion r)"
      "\<not> presentNonBlank (colonia r)" "\<not> presentNonBlank (codigo_postal r)"
      "\<not> presentNonBlank (seccion r)" "\<not> presentNonBlank (entidad r)"
      "\<not> presentNonBlank (municipio r)" "\<not> presentNonBlank (numero_cel r)"
  proof -
    from that have "populatedCount r = 0"
      by (simp add: populatedCount_def)
    with val [OF that(1)] show ?thesis by simp
  qed
  from val range full none calculateDataCompleteness_untyped [of r] show ?thesis
    by blast
qed

lemma fullRow_populated:
  "fieldsTyped fullRow \<and> presentNonBlank (nombre fullRow) \<and> presentNonBlank (clave_electoral fullRow)
   \<and> presentNonBlank (curp fullRow) \<and> presentNonBlank (direccion fullRow)
   \<and> presentNonBlank (colonia fullRow) \<and> presentNonBlank (codigo_postal fullRow)
   \<and> presentNonBlank (seccion fullRow) \<and> presentNonBlank (entidad fullRow)
   \<and> presentNonBlank (municipio fullRow) \<and> presentNonBlank (numero_cel fullRow)"
  by (simp add: fullRow_def fieldsTyped_def stringOrFalsy_def presentNonBlank_def ascii_def
      isWhitespace_def)

lemma blankRow_unpopulated:
  "fieldsTyped blankRow \<and> \<not> presentNonBlank (nombre blankRow)
   \<and> \<not> presentNonBlank (clave_electoral blankRow)
   \<and> \<not> presentNonBlank (curp blankRow) \<and> \<not> presentNonBlank (direccion blankRow)
   \<and> \<not> presentNonBlank (colonia blankRow) \<and> \<not> presentNonBlank (codigo_postal blankRow)
   \<and> \<not> presentNonBlank (seccion blankRow) \<and> \<not> presentNonBlank (entidad blankRow)
   \<and> \<not> presentNonBlank (municipio blankRow) \<and> \<not> presentNonBlank (numero_cel blankRow)"
  by (simp add: blankRow_def fieldsTyped_def stringOrFalsy_def presentNonBlank_def ascii_def
      isWhitespace_def)

theorem calculateDataCompleteness_spec_witness:
  "calculateDataCompleteness fullRow = Inr 100
   \<and> calculateDataCompleteness blankRow = Inr 0
   \<and> calculateDataCompleteness (exampleRow Missing Missing) = Inr 20
   \<and> calculateDataCompleteness numericSeccionRow = Inl ThrownTypeError"
proof -
  from calculateDataCompleteness_spec [of fullRow] fullRow_populated
  have a: "calculateDataCompleteness fullRow = Inr 100"
    by blast
  from calculateDataCompleteness_spec [of blankRow] blankRow_unpopulated
  have b: "calculateDataCompleteness blankRow = Inr 0"
    by blast
  have typed: "fieldsTyped (exampleRow Missing Missing)"
    by (simp add: exampleRow_def fieldsTyped_def stringOrFalsy_def)
  have count: "populatedCount (exampleRow Missing Missing) = 2"
    by (simp add: exampleRow_def populatedCount_def presentNonBlank_def ascii_def isWhitespace_def)
  from calculateDataCompleteness_spec [of "exampleRow Missing Missing"] typed
  have "calculateDataCompleteness (exampleRow Missing Missing)
      = Inr (100 * real (populatedCount (exampleRow Missing Missing)) / 10)"
    by blast
  with count have c: "calculateDataCompleteness (exampleRow Missing Missing) = Inr 20"
    by simp
  have "\<not> fieldsTyped numericSeccionRow"
    by (simp add: numericSeccionRow_def exampleRow_def fieldsTyped_def stringOrFalsy_def)
  with calculateDataCompleteness_spec [of numericSeccionRow]
  have d: "calculateDataCompleteness numericSeccionRow = Inl ThrownTypeError"
    by blast
  from a b c d show ?thesis
    by blast
qed

text \<open>
  Claim C7, as stated, fails: it speaks of every source record, and for a record whose
  \<^verbatim>\<open>seccion\<close> holds a number the function returns no percentage at all, it throws.
\<close>

theorem completeness_throws_counterexample:
  "calculateDataCompleteness numericSeccionRow = Inl ThrownTypeError
   \<and> (\<nexists>score. calculateDataCompleteness numericSeccionRow = Inr score)"
  by (simp add: calculateDataCompleteness_def andThen_def fields_of_def numericSeccionRow_def
      exampleRow_def fieldCompleted_def trim_def isWhitespace_def ascii_def)

subsection \<open>Tree builder: registered counts\<close>

lemma foldl_add_sum_list:
  "foldl (\<lambda>total x. total + f x) a xs = (a::nat) + sum_list (map f xs)"
  by (induction xs arbitrary: a) simp_all

lemma sum_list_concat_map:
  "sum_list (concat (map f xs)) = sum_list (map (\<lambda>x. sum_list (f x :: nat list)) xs)"
  by (induction xs) simp_all

lemma andThen_Inr_iff: "andThen r f = Inr y \<longleftrightarrow> (\<exists>x. r = Inr x \<and> f x = Inr y)"
  by (cases r) (simp_all add: andThen_def)

lemma mapThrowing_Inr_iff:
  "mapThrowing f xs = Inr ys \<longleftrightarrow> list_all2 (\<lambda>x y. f x = Inr y) xs ys"
proof (induction xs arbitrary: ys)
  case Nil
  then show ?case by auto
next
  case (Cons x xs)
  have "mapThrowing f (x # xs) = Inr ys \<longleftrightarrow>
      (\<exists>y ys'. ys = y # ys' \<and> f x = Inr y \<and> mapThrowing f xs = Inr ys')"
    by (auto split: sum.splits)
  also have "\<dots> \<longleftrightarrow> (\<exists>y ys'. ys = y # ys' \<and> f x = Inr y
      \<and> list_all2 (\<lambda>x y. f x = Inr y) xs ys')"
    by (simp only: Cons.IH)
  also have "\<dots> \<longleftrightarrow> list_all2 (\<lambda>x y. f x = Inr y) (x # xs) ys"
    by (auto simp: list_all2_Cons1)
  finally show ?case .
qed

lemma list_all2_left: "list_all2 P xs ys \<Longrightarrow> x \<in> set xs \<Longrightarrow> \<exists>y. P x y"
  by (induction rule: list_all2_induct) auto

lemma list_all2_right: "list_all2 P xs ys \<Longrightarrow> y \<in> set ys \<Longrightarrow> \<exists>x. P x y"
  by (induction rule: list_all2_induct) auto

lemma arrayOrEmpty_Inr: "arrayOrEmpty x = Inr xs \<Longrightarrow> xs = rowsOf x"
  by (cases x) (auto simp: arrayOrEmpty_def rowsOf_def split: if_splits)

lemma movilizador_built:
  assumes "transformMovilizadorToHierarchicalWorker now m pid = Inr M"
  shows "hw_ciudadanosRegistrados M = length (leafRows m)" and "hw_role M = Movilizador"
    and "hw_children M = []" and "movilizadorNodes M = [M]"
    and "hw_id M = id_row m" and "hw_nombre M = nombre m"
  using assms
  by (auto simp: transformMovilizadorToHierarchicalWorker_def Let_def andThen_Inr_iff
      ciudadanosLength_def leafRows_def split: option.splits)

lemma movilizadoresTotal_Inr:
  "movilizadoresTotal b = Inr n \<Longrightarrow>
   n = sum_list (map (\<lambda>m. length (leafRows m)) (rowsOf (movilizadores b)))"
proof -
  have len: "ciudadanosLength = (\<lambda>m. length (leafRows m))"
    by (auto simp: ciudadanosLength_def leafRows_def split: option.splits)
  show "movilizadoresTotal b = Inr n \<Longrightarrow>
     n = sum_list (map (\<lambda>m. length (leafRows m)) (rowsOf (movilizadores b)))"
    by (cases "movilizadores b")
       (auto simp: movilizadoresTotal_def rowsOf_def foldl_add_sum_list len)
qed

lemma list_all2_movilizadores:
  assumes "list_all2 (\<lambda>m M. transformMovilizadorToHierarchicalWorker now m pid = Inr M) ms Ms"
  shows "map hw_ciudadanosRegistrados Ms = map (\<lambda>m. length (leafRows m)) ms"
    and "concat (map movilizadorNodes Ms) = Ms"
    and "\<forall>M \<in> set Ms. hw_role M = Movilizador \<and> hw_children M = []"
  using assms
  by (induction rule: list_all2_induct) (auto simp: movilizador_built)

lemma brigadista_built:
  assumes "transformBrigadistaToHierarchicalWorker now b pid = Inr B"
  shows "hw_role B = Brigadista"
    and "list_all2 (\<lambda>m M. transformMovilizadorToHierarchicalWorker now m (id_row b) = Inr M)
           (rowsOf (movilizadores b)) (hw_children B)"
    and "hw_ciudadanosRegistrados B
           = sum_list (map (\<lambda>m. length (leafRows m)) (rowsOf (movilizadores b)))"
    and "hw_id B = id_row b" and "hw_nombre B = nombre b"
proof -
  from assms obtain ms movs total perf where
    a: "arrayOrEmpty (movilizadores b) = Inr ms"
    and m: "mapThrowing (\<lambda>movilizador.
        transformMovilizadorToHierarchicalWorker now movilizador (id_row b)) ms = Inr movs"
    and t: "movilizadoresTotal b = Inr total"
    and B: "B = HierarchicalWorker (id_row b) (nombre b) Brigadista total
        (extractLocationInfo b) movs perf pid (isWorkerActive now (created_at b))
        (created_at b) None"
    by (auto simp: transformBrigadistaToHierarchicalWorker_def andThen_Inr_iff)
  from a have ms: "ms = rowsOf (movilizadores b)"
    by (rule arrayOrEmpty_Inr)
  show "hw_role B = Brigadista" and "hw_id B = id_row b" and "hw_nombre B = nombre b"
    by (simp_all add: B)
  from m show "list_all2
      (\<lambda>m M. transformMovilizadorToHierarchicalWorker now m (id_row b) = Inr M)
      (rowsOf (movilizadores b)) (hw_children B)"
    by (simp add: B ms mapThrowing_Inr_iff)
  from movilizadoresTotal_Inr [OF t]
  show "hw_ciudadanosRegistrados B
      = sum_list (map (\<lambda>m. length (leafRows m)) (rowsOf (movilizadores b)))"
    by (simp add: B)
qed

lemma brigadista_nodes:
  assumes "transformBrigadistaToHierarchicalWorker now b pid = Inr B"
  shows "movilizadorNodes B = hw_children B"
    and "map hw_ciudadanosRegistrados (hw_children B)
           = map (\<lambda>m. length (leafRows m)) (rowsOf (movilizadores b))"
    and "hw_ciudadanosRegistrados B
           = sum_list (map hw_ciudadanosRegistrados (movilizadorNodes B))"
    and "\<forall>M \<in> set (hw_children B). hw_role M = Movilizador \<and> hw_children M = []"
proof -
  note built = brigadista_built [OF assms]
  note movs = list_all2_movilizadores [OF built(2)]
  from built(1) movs(2) show nodes: "movilizadorNodes B = hw_children B"
    by (cases B) simp
  from movs(1) show counts: "map hw_ciudadanosRegistrados (hw_children B)
      = map (\<lambda>m. length (leafRows m)) (rowsOf (movilizadores b))" .
  from built(3) counts show "hw_ciudadanosRegistrados B
      = sum_list (map hw_ciudadanosRegistrados (movilizadorNodes B))"
    by (simp only: nodes)
  from movs(3) show "\<forall>M \<in> set (hw_children B). hw_role M = Movilizador \<and> hw_children M = []" .
qed

lemma list_all2_brigadistas_counts:
  assumes "list_all2 (\<lambda>b B. transformBrigadistaToHierarchicalWorker now b pid = Inr B) bs Bs"
  shows "map hw_ciudadanosRegistrados (concat (map movilizadorNodes Bs))
           = map (\<lambda>m. length (leafRows m)) (concat (map (\<lambda>b. rowsOf (movilizadores b)) bs))"
  using assms
proof (induction rule: list_all2_induct)
  case Nil
  show ?case by simp
next
  case (Cons b bs B Bs)
  have here: "map hw_ciudadanosRegistrados (movilizadorNodes B)
      = map (\<lambda>m. length (leafRows m)) (rowsOf (movilizadores b))"
    using brigadista_nodes(1,2) [OF Cons.hyps(1)] by (simp only:)
  have "map hw_ciudadanosRegistrados (concat (map movilizadorNodes (B # Bs)))
      = map hw_ciudadanosRegistrados (movilizadorNodes B)
        @ map hw_ciudadanosRegistrados (concat (map movilizadorNodes Bs))"
    by (simp del: movilizadorNodes.simps)
  also have "\<dots> = map (\<lambda>m. length (leafRows m)) (rowsOf (movilizadores b))
      @ map (\<lambda>m. length (leafRows m)) (concat (map (\<lambda>b. rowsOf (movilizadores b)) bs))"
    by (simp only: here Cons.IH)
  finally show ?case
    by simp
qed

lemma list_all2_brigadistas_nodes:
  assumes "list_all2 (\<lambda>b B. transformBrigadistaToHierarchicalWorker now b pid = Inr B) bs Bs"
    and "B \<in> set Bs"
  shows "hw_role B = Brigadista
           \<and> hw_ciudadanosRegistrados B
               = sum_list (map hw_ciudadanosRegistrados (movilizadorNodes B))
           \<and> (\<forall>M \<in> set (hw_children B). hw_role M = Movilizador \<and> hw_children M = [])"
proof -
  from list_all2_right [OF assms]
  obtain b where b: "transformBrigadistaToHierarchicalWorker now b pid = Inr B"
    by blast
  from brigadista_built(1) [OF b] brigadista_nodes(3,4) [OF b] show ?thesis
    by blast
qed

lemma reduceThrowing_total:
  "\<forall>x \<in> set xs. \<forall>acc. f acc x = Inr (acc + g x) \<Longrightarrow>
   reduceThrowing f acc xs = Inr (acc + sum_list (map g xs) :: nat)"
  by (induction xs arbitrary: acc) (simp_all add: add.assoc)

lemma calculateTotalCiudadanos_built:
  assumes "list_all2 (\<lambda>b B. transformBrigadistaToHierarchicalWorker now b pid = Inr B)
      (rowsOf (brigadistas l)) Bs"
    and "arrayOrEmpty (brigadistas l) = Inr bs"
  shows "calculateTotalCiudadanos l
      = Inr (sum_list (map (\<lambda>b. sum_list (map (\<lambda>m. length (leafRows m)) (rowsOf (movilizadores b))))
          (rowsOf (brigadistas l))))"
proof -
  have len: "ciudadanosLength = (\<lambda>m. length (leafRows m))"
    by (auto simp: ciudadanosLength_def leafRows_def split: option.splits)
  have each: "arrayOrEmpty (movilizadores b) = Inr (rowsOf (movilizadores b))"
    if "b \<in> set (rowsOf (brigadistas l))" for b
  proof -
    from list_all2_left [OF assms(1) that]
    obtain B where "transformBrigadistaToHierarchicalWorker now b pid = Inr B"
      by blast
    then obtain ms where "arrayOrEmpty (movilizadores b) = Inr ms"
      by (auto simp: transformBrigadistaToHierarchicalWorker_def andThen_Inr_iff)
    with arrayOrEmpty_Inr [OF this] show ?thesis by simp
  qed
  have "reduceThrowing
      (\<lambda>total brigadista.
         andThen (arrayOrEmpty (movilizadores brigadista))
           (\<lambda>ms. Inr (total
               + foldl (\<lambda>brigTotal movilizador. brigTotal + ciudadanosLength movilizador) 0 ms)))
      0 (rowsOf (brigadistas l))
    = Inr (0 + sum_list (map (\<lambda>b. sum_list (map (\<lambda>m. length (leafRows m)) (rowsOf (movilizadores b))))
        (rowsOf (brigadistas l))))"
    by (rule reduceThrowing_total) (simp add: each andThen_def foldl_add_sum_list len)
  with assms(2) arrayOrEmpty_Inr [OF assms(2)] show ?thesis
    by (simp add: calculateTotalCiudadanos_def andThen_def)
qed

lemma lider_built:
  assumes "transformLiderToHierarchicalWorker now l = Inr L"
  shows "hw_role L = Lider"
    and "list_all2 (\<lambda>b B. transformBrigadistaToHierarchicalWorker now b (id_row l) = Inr B)
           (rowsOf (brigadistas l)) (hw_children L)"
    and "hw_ciudadanosRegistrados L
           = sum_list (map (\<lambda>b. sum_list (map (\<lambda>m. length (leafRows m)) (rowsOf (movilizadores b))))
               (rowsOf (brigadistas l)))"
    and "hw_id L = id_row l" and "hw_nombre L = nombre l"
proof -
  from assms obtain bs brigs total perf where
    a: "arrayOrEmpty (brigadistas l) = Inr bs"
    and m: "mapThrowing (\<lambda>brigadista.
        transformBrigadistaToHierarchicalWorker now brigadista (id_row l)) bs = Inr brigs"
    and t: "calculateTotalCiudadanos l = Inr total"
    and L: "L = HierarchicalWorker (id_row l) (nombre l) Lider total
        (extractLocationInfo l) brigs perf Missing (isWorkerActive now (created_at l))
        (created_at l) None"
    by (auto simp: transformLiderToHierarchicalWorker_def andThen_Inr_iff)
  from a have bs: "bs = rowsOf (brigadistas l)"
    by (rule arrayOrEmpty_Inr)
  show "hw_role L = Lider" and "hw_id L = id_row l" and "hw_nombre L = nombre l"
    by (simp_all add: L)
  from m show children: "list_all2
      (\<lambda>b B. transformBrigadistaToHierarchicalWorker now b (id_row l) = Inr B)
      (rowsOf (brigadistas l)) (hw_children L)"
    by (simp add: L bs mapThrowing_Inr_iff)
  from calculateTotalCiudadanos_built [OF children a] t
  show "hw_ciudadanosRegistrados L
      = sum_list (map (\<lambda>b. sum_list (map (\<lambda>m. length (leafRows m)) (rowsOf (movilizadores b))))
          (rowsOf (brigadistas l)))"
    by (simp add: L)
qed

lemma lider_nodes:
  assumes "transformLiderToHierarchicalWorker now l = Inr L"
  shows "movilizadorNodes L = concat (map movilizadorNodes (hw_children L))"
    and "map hw_ciudadanosRegistrados (movilizadorNodes L)
           = map (\<lambda>m. length (leafRows m))
               (concat (map (\<lambda>b. rowsOf (movilizadores b)) (rowsOf (brigadistas l))))"
    and "hw_ciudadanosRegistrados L
           = sum_list (map hw_ciudadanosRegistrados (movilizadorNodes L))"
    and "\<forall>B \<in> set (hw_children L). hw_role B = Brigadista
           \<and> hw_ciudadanosRegistrados B
               = sum_list (map hw_ciudadanosRegistrados (movilizadorNodes B))
           \<and> (\<forall>M \<in> set (hw_children B). hw_role M = Movilizador \<and> hw_children M = [])"
proof -
  note built = lider_built [OF assms]
  note brigs = list_all2_brigadistas_counts [OF built(2)]
  from built(1) show nodes: "movilizadorNodes L = concat (map movilizadorNodes (hw_children L))"
    by (cases L) simp
  from brigs show counts: "map hw_ciudadanosRegistrados (movilizadorNodes L)
      = map (\<lambda>m. length (leafRows m))
          (concat (map (\<lambda>b. rowsOf (movilizadores b)) (rowsOf (brigadistas l))))"
    by (simp only: nodes)
  have "sum_list (map (\<lambda>m. length (leafRows m))
        (concat (map (\<lambda>b. rowsOf (movilizadores b)) (rowsOf (brigadistas l)))))
      = sum_list (map (\<lambda>b. sum_list (map (\<lambda>m. length (leafRows m)) (rowsOf (movilizadores b))))
          (rowsOf (brigadistas l)))"
    by (simp add: map_concat sum_list_concat_map comp_def)
  with built(3) counts show "hw_ciudadanosRegistrados L
      = sum_list (map hw_ciudadanosRegistrados (movilizadorNodes L))"
    by simp
  from list_all2_brigadistas_nodes [OF built(2)]
  show "\<forall>B \<in> set (hw_children L). hw_role B = Brigadista
      \<and> hw_ciudadanosRegistrados B
          = sum_list (map hw_ciudadanosRegistrados (movilizadorNodes B))
      \<and> (\<forall>M \<in> set (hw_children B). hw_role M = Movilizador \<and> hw_children M = [])"
    by blast
qed

lemma list_all2_lideres_counts:
  assumes "list_all2 (\<lambda>l L. transformLiderToHierarchicalWorker now l = Inr L) rows tree"
  shows "map hw_ciudadanosRegistrados (concat (map movilizadorNodes tree))
           = map (\<lambda>m. length (leafRows m)) (movilizadorRows rows)"
  using assms
proof (induction rule: list_all2_induct)
  case Nil
  show ?case by (simp add: movilizadorRows_def)
next
  case (Cons l rows L tree)
  have "map hw_ciudadanosRegistrados (concat (map movilizadorNodes (L # tree)))
      = map hw_ciudadanosRegistrados (movilizadorNodes L)
        @ map hw_ciudadanosRegistrados (concat (map movilizadorNodes tree))"
    by (simp del: movilizadorNodes.simps)
  also have "\<dots> = map (\<lambda>m. length (leafRows m))
        (concat (map (\<lambda>b. rowsOf (movilizadores b)) (rowsOf (brigadistas l))))
      @ map (\<lambda>m. length (leafRows m)) (movilizadorRows rows)"
    by (simp only: lider_nodes(2) [OF Cons.hyps(1)] Cons.IH)
  finally show ?case
    by (simp add: movilizadorRows_def)
qed

lemma list_all2_lideres_ids:
  assumes "list_all2 (\<lambda>l L. transformLiderToHierarchicalWorker now l = Inr L) rows tree"
  shows "map hw_id tree = map id_row rows \<and> map hw_nombre tree = map nombre rows"
  using assms
  by (induction rule: list_all2_induct) (simp_all add: lider_built(4,5))

text \<open>
  Claim C1. In every tree that \<open>transformToHierarchicalWorkers\<close> returns, the count of each
  level-1 node (lider) and of each level-2 node (brigadista) is the sum of the counts of the
  level-3 nodes (movilizadores) of its subtree, and the count of each level-3 node is the length
  of the leaf rows (ciudadanos) of the row it was built from. The roots are the liders, their
  children the brigadistas, and the children of these the movilizadores, which have no children,
  so the statement covers every node of the tree.
\<close>

theorem transformToHierarchicalWorkers_counts:
  "transformToHierarchicalWorkers now rows = Inr tree \<Longrightarrow>
   (\<forall>lider \<in> set tree.
      hw_role lider = Lider
      \<and> hw_ciudadanosRegistrados lider
          = sum_list (map hw_ciudadanosRegistrados (movilizadorNodes lider))
      \<and> (\<forall>brigadista \<in> set (hw_children lider).
            hw_role brigadista = Brigadista
            \<and> hw_ciudadanosRegistrados brigadista
                = sum_list (map hw_ciudadanosRegistrados (movilizadorNodes brigadista))
            \<and> (\<forall>movilizador \<in> set (hw_children brigadista).
                  hw_role movilizador = Movilizador \<and> hw_children movilizador = [])))
   \<and> map hw_ciudadanosRegistrados (concat (map movilizadorNodes tree))
       = map (\<lambda>m. length (leafRows m)) (movilizadorRows rows)"
proof -
  assume "transformToHierarchicalWorkers now rows = Inr tree"
  then have all: "list_all2 (\<lambda>l L. transformLiderToHierarchicalWorker now l = Inr L) rows tree"
    by (simp add: transformToHierarchicalWorkers_def mapThrowing_Inr_iff)
  have node: "hw_role L = Lider
      \<and> hw_ciudadanosRegistrados L = sum_list (map hw_ciudadanosRegistrados (movilizadorNodes L))
      \<and> (\<forall>B \<in> set (hw_children L).
            hw_role B = Brigadista
            \<and> hw_ciudadanosRegistrados B
                = sum_list (map hw_ciudadanosRegistrados (movilizadorNodes B))
            \<and> (\<forall>M \<in> set (hw_children B). hw_role M = Movilizador \<and> hw_children M = []))"
    if "L \<in> set tree" for L
  proof -
    from list_all2_right [OF all that]
    obtain l where l: "transformLiderToHierarchicalWorker now l = Inr L"
      by blast
    from lider_built(1) [OF l] lider_nodes(3,4) [OF l] show ?thesis
      by blast
  qed
  from node list_all2_lideres_counts [OF all] show ?thesis
    by blast
qed

subsection \<open>Tree builder: when the build throws\<close>

lemma andThen_Inl_iff:
  "andThen r f = Inl e \<longleftrightarrow> r = Inl e \<or> (\<exists>x. r = Inr x \<and> f x = Inl e)"
  by (cases r) (simp_all add: andThen_def)

lemma mapThrowing_Inl: "mapThrowing f xs = Inl e \<Longrightarrow> \<exists>x \<in> set xs. f x = Inl e"
  by (induction xs) (auto split: sum.splits)

lemma mapThrowing_total:
  "\<forall>x \<in> set xs. \<exists>y. f x = Inr y \<Longrightarrow> \<exists>ys. mapThrowing f xs = Inr ys"
proof (induction xs)
  case Nil
  show ?case by simp
next
  case (Cons x xs)
  then obtain y ys where "f x = Inr y" and "mapThrowing f xs = Inr ys"
    by auto
  then show ?case by simp
qed

lemma reduceThrowing_Inl:
  "reduceThrowing f acc xs = Inl e \<Longrightarrow> \<exists>x \<in> set xs. \<exists>a. f a x = Inl e"
  by (induction xs arbitrary: acc) (auto split: sum.splits)

lemma arrayOrEmpty_Inl: "arrayOrEmpty x = Inl e \<longleftrightarrow> x = NonArray True \<and> e = ThrownTypeError"
  by (cases x) (auto simp: arrayOrEmpty_def)

lemma calculateDataCompleteness_Inr_iff:
  "(\<exists>score. calculateDataCompleteness r = Inr score) \<longleftrightarrow> fieldsTyped r"
  using calculateDataCompleteness_typed [of r] calculateDataCompleteness_untyped [of r]
  by (cases "fieldsTyped r") auto

lemma calculatePerformanceMetrics_Inr_iff:
  "(\<exists>p. calculatePerformanceMetrics now r n = Inr p) \<longleftrightarrow> fieldsTyped r"
  using calculateDataCompleteness_typed [of r] calculateDataCompleteness_untyped [of r]
  by (cases "fieldsTyped r") (auto simp: calculatePerformanceMetrics_def andThen_def)

lemma calculatePerformanceMetrics_Inl:
  "calculatePerformanceMetrics now r n = Inl e \<Longrightarrow> e = ThrownTypeError"
  using calculateDataCompleteness_typed [of r] calculateDataCompleteness_untyped [of r]
  by (cases "fieldsTyped r") (auto simp: calculatePerformanceMetrics_def andThen_def)

lemma movilizador_Inr_iff:
  "(\<exists>M. transformMovilizadorToHierarchicalWorker now m pid = Inr M) \<longleftrightarrow> fieldsTyped m"
  using calculatePerformanceMetrics_Inr_iff [of now m "ciudadanosLength m"]
  by (auto simp: transformMovilizadorToHierarchicalWorker_def Let_def andThen_Inr_iff)

lemma movilizador_Inl:
  "transformMovilizadorToHierarchicalWorker now m pid = Inl e \<Longrightarrow> e = ThrownTypeError"
  using calculatePerformanceMetrics_Inl
  by (auto simp: transformMovilizadorToHierarchicalWorker_def Let_def andThen_Inl_iff)

lemma movilizadoresTotal_Inl: "movilizadoresTotal b = Inl e \<Longrightarrow> e = ThrownTypeError"
  by (cases "movilizadores b") (auto simp: movilizadoresTotal_def)

lemma brigadista_Inl:
  "transformBrigadistaToHierarchicalWorker now b pid = Inl e \<Longrightarrow> e = ThrownTypeError"
proof -
  assume "transformBrigadistaToHierarchicalWorker now b pid = Inl e"
  then consider "arrayOrEmpty (movilizadores b) = Inl e"
    | ms where "mapThrowing (\<lambda>movilizador.
        transformMovilizadorToHierarchicalWorker now movilizador (id_row b)) ms = Inl e"
    | "movilizadoresTotal b = Inl e"
    | n where "calculatePerformanceMetrics now b n = Inl e"
    by (auto simp: transformBrigadistaToHierarchicalWorker_def andThen_Inl_iff)
  then show "e = ThrownTypeError"
  proof cases
    case 1
    then show ?thesis by (simp add: arrayOrEmpty_Inl)
  next
    case 2
    from mapThrowing_Inl [OF this] obtain m where
      "transformMovilizadorToHierarchicalWorker now m (id_row b) = Inl e"
      by blast
    then show ?thesis by (rule movilizador_Inl)
  next
    case 3
    then show ?thesis by (rule movilizadoresTotal_Inl)
  next
    case 4
    then show ?thesis by (rule calculatePerformanceMetrics_Inl)
  qed
qed

lemma brigadista_Inr_iff:
  "(\<exists>B. transformBrigadistaToHierarchicalWorker now b pid = Inr B) \<longleftrightarrow> brigadistaBuildable b"
proof
  assume "\<exists>B. transformBrigadistaToHierarchicalWorker now b pid = Inr B"
  then obtain ms movs total perf where
    a: "arrayOrEmpty (movilizadores b) = Inr ms"
    and m: "mapThrowing (\<lambda>movilizador.
        transformMovilizadorToHierarchicalWorker now movilizador (id_row b)) ms = Inr movs"
    and t: "movilizadoresTotal b = Inr total"
    and p: "calculatePerformanceMetrics now b total = Inr perf"
    by (auto simp: transformBrigadistaToHierarchicalWorker_def andThen_Inr_iff)
  from p have typed: "fieldsTyped b"
    using calculatePerformanceMetrics_Inr_iff by blast
  from t have shape: "movilizadores b = NoArray \<or> (\<exists>xs. movilizadores b = Array xs)"
    by (cases "movilizadores b") (auto simp: movilizadoresTotal_def)
  have each: "\<forall>x \<in> set ms. fieldsTyped x"
  proof
    fix x assume x: "x \<in> set ms"
    from m have "list_all2
        (\<lambda>mov M. transformMovilizadorToHierarchicalWorker now mov (id_row b) = Inr M) ms movs"
      by (simp add: mapThrowing_Inr_iff)
    from list_all2_left [OF this x]
    have "\<exists>M. transformMovilizadorToHierarchicalWorker now x (id_row b) = Inr M" .
    then show "fieldsTyped x"
      by (simp only: movilizador_Inr_iff)
  qed
  from a have "ms = rowsOf (movilizadores b)" by (rule arrayOrEmpty_Inr)
  with typed shape each show "brigadistaBuildable b"
    by (auto simp: brigadistaBuildable_def rowsOf_def list_all_iff)
next
  assume ok: "brigadistaBuildable b"
  then have typed: "fieldsTyped b" by (simp add: brigadistaBuildable_def)
  from ok have a: "arrayOrEmpty (movilizadores b) = Inr (rowsOf (movilizadores b))"
    by (cases "movilizadores b") (auto simp: brigadistaBuildable_def arrayOrEmpty_def rowsOf_def)
  from ok have "\<forall>x \<in> set (rowsOf (movilizadores b)). fieldsTyped x"
    by (cases "movilizadores b") (auto simp: brigadistaBuildable_def rowsOf_def list_all_iff)
  then have "\<forall>x \<in> set (rowsOf (movilizadores b)).
      \<exists>M. transformMovilizadorToHierarchicalWorker now x (id_row b) = Inr M"
    by (simp add: movilizador_Inr_iff)
  from mapThrowing_total [OF this] obtain movs where
    m: "mapThrowing (\<lambda>movilizador.
        transformMovilizadorToHierarchicalWorker now movilizador (id_row b))
        (rowsOf (movilizadores b)) = Inr movs"
    by blast
  from ok obtain total where t: "movilizadoresTotal b = Inr total"
    by (cases "movilizadores b") (auto simp: brigadistaBuildable_def movilizadoresTotal_def)
  from typed obtain perf where p: "calculatePerformanceMetrics now b total = Inr perf"
    using calculatePerformanceMetrics_Inr_iff by blast
  from a m t p show "\<exists>B. transformBrigadistaToHierarchicalWorker now b pid = Inr B"
    by (simp add: transformBrigadistaToHierarchicalWorker_def andThen_def)
qed

lemma calculateTotalCiudadanos_Inl: "calculateTotalCiudadanos l = Inl e \<Longrightarrow> e = ThrownTypeError"
proof -
  let ?step = "\<lambda>total (brigadista :: BrigadistaWithHierarchy).
      andThen (arrayOrEmpty (movilizadores brigadista))
        (\<lambda>ms. Inr (total
            + foldl (\<lambda>brigTotal movilizador. brigTotal + ciudadanosLength movilizador) 0 ms))"
  assume "calculateTotalCiudadanos l = Inl e"
  then have "arrayOrEmpty (brigadistas l) = Inl e
      \<or> (\<exists>bs. reduceThrowing ?step (0::nat) bs = Inl e)"
    unfolding calculateTotalCiudadanos_def andThen_Inl_iff
    by blast
  then show "e = ThrownTypeError"
  proof
    assume "arrayOrEmpty (brigadistas l) = Inl e"
    then show ?thesis by (simp add: arrayOrEmpty_Inl)
  next
    assume "\<exists>bs. reduceThrowing ?step (0::nat) bs = Inl e"
    then obtain bs where "reduceThrowing ?step (0::nat) bs = Inl e" ..
    from reduceThrowing_Inl [OF this] obtain b a where "?step a b = Inl e"
      by blast
    then have "arrayOrEmpty (movilizadores b) = Inl e"
      by (simp add: andThen_Inl_iff)
    then show ?thesis by (simp add: arrayOrEmpty_Inl)
  qed
qed

lemma lider_Inl:
  "transformLiderToHierarchicalWorker now l = Inl e \<Longrightarrow> e = ThrownTypeError"
proof -
  assume "transformLiderToHierarchicalWorker now l = Inl e"
  then consider "arrayOrEmpty (brigadistas l) = Inl e"
    | bs where "mapThrowing (\<lambda>brigadista.
        transformBrigadistaToHierarchicalWorker now brigadista (id_row l)) bs = Inl e"
    | "calculateTotalCiudadanos l = Inl e"
    | n where "calculatePerformanceMetrics now l n = Inl e"
    by (auto simp: transformLiderToHierarchicalWorker_def andThen_Inl_iff)
  then show "e = ThrownTypeError"
  proof cases
    case 1
    then show ?thesis by (simp add: arrayOrEmpty_Inl)
  next
    case 2
    from mapThrowing_Inl [OF this] obtain b where
      "transformBrigadistaToHierarchicalWorker now b (id_row l) = Inl e"
      by blast
    then show ?thesis by (rule brigadista_Inl)
  next
    case 3
    then show ?thesis by (rule calculateTotalCiudadanos_Inl)
  next
    case 4
    then show ?thesis by (rule calculatePerformanceMetrics_Inl)
  qed
qed

lemma lider_Inr_iff:
  "(\<exists>L. transformLiderToHierarchicalWorker now l = Inr L) \<longleftrightarrow> liderBuildable l"
proof
  assume "\<exists>L. transformLiderToHierarchicalWorker now l = Inr L"
  then obtain bs brigs total perf where
    a: "arrayOrEmpty (brigadistas l) = Inr bs"
    and m: "mapThrowing (\<lambda>brigadista.
        transformBrigadistaToHierarchicalWorker now brigadista (id_row l)) bs = Inr brigs"
    and p: "calculatePerformanceMetrics now l total = Inr perf"
    by (auto simp: transformLiderToHierarchicalWorker_def andThen_Inr_iff)
  from p have typed: "fieldsTyped l"
    using calculatePerformanceMetrics_Inr_iff by blast
  from a have shape: "brigadistas l \<noteq> NonArray True"
    by (auto simp: arrayOrEmpty_def)
  have each: "\<forall>x \<in> set bs. brigadistaBuildable x"
  proof
    fix x assume x: "x \<in> set bs"
    from m have "list_all2
        (\<lambda>b B. transformBrigadistaToHierarchicalWorker now b (id_row l) = Inr B) bs brigs"
      by (simp add: mapThrowing_Inr_iff)
    from list_all2_left [OF this x]
    have "\<exists>B. transformBrigadistaToHierarchicalWorker now x (id_row l) = Inr B" .
    then show "brigadistaBuildable x"
      by (simp only: brigadista_Inr_iff)
  qed
  from a have "bs = rowsOf (brigadistas l)" by (rule arrayOrEmpty_Inr)
  with typed shape each show "liderBuildable l"
    by (cases "brigadistas l") (auto simp: liderBuildable_def rowsOf_def list_all_iff)
next
  assume ok: "liderBuildable l"
  then have typed: "fieldsTyped l" by (simp add: liderBuildable_def)
  from ok have a: "arrayOrEmpty (brigadistas l) = Inr (rowsOf (brigadistas l))"
    by (cases "brigadistas l") (auto simp: liderBuildable_def arrayOrEmpty_def rowsOf_def)
  from ok have "\<forall>x \<in> set (rowsOf (brigadistas l)). brigadistaBuildable x"
    by (cases "brigadistas l") (auto simp: liderBuildable_def rowsOf_def list_all_iff)
  then have "\<forall>x \<in> set (rowsOf (brigadistas l)).
      \<exists>B. transformBrigadistaToHierarchicalWorker now x (id_row l) = Inr B"
    by (simp add: brigadista_Inr_iff)
  from mapThrowing_total [OF this] obtain brigs where
    m: "mapThrowing (\<lambda>brigadista.
        transformBrigadistaToHierarchicalWorker now brigadista (id_row l))
        (rowsOf (brigadistas l)) = Inr brigs"
    by blast
  then have "list_all2 (\<lambda>b B. transformBrigadistaToHierarchicalWorker now b (id_row l) = Inr B)
      (rowsOf (brigadistas l)) brigs"
    by (simp add: mapThrowing_Inr_iff)
  from calculateTotalCiudadanos_built [OF this a] obtain total where
    t: "calculateTotalCiudadanos l = Inr total"
    by blast
  from typed obtain perf where p: "calculatePerformanceMetrics now l total = Inr perf"
    using calculatePerformanceMetrics_Inr_iff by blast
  from a m t p show "\<exists>L. transformLiderToHierarchicalWorker now l = Inr L"
    by (simp add: transformLiderToHierarchicalWorker_def andThen_def)
qed

lemma tree_Inr_iff:
  "(\<exists>tree. transformToHierarchicalWorkers now rows = Inr tree) \<longleftrightarrow> list_all liderBuildable rows"
proof
  assume "\<exists>tree. transformToHierarchicalWorkers now rows = Inr tree"
  then obtain tree where
    all: "list_all2 (\<lambda>l L. transformLiderToHierarchicalWorker now l = Inr L) rows tree"
    by (auto simp: transformToHierarchicalWorkers_def mapThrowing_Inr_iff)
  have "liderBuildable x" if "x \<in> set rows" for x
  proof -
    from list_all2_left [OF all that]
    have "\<exists>L. transformLiderToHierarchicalWorker now x = Inr L" .
    then show ?thesis by (simp only: lider_Inr_iff)
  qed
  then show "list_all liderBuildable rows"
    by (simp add: list_all_iff)
next
  assume "list_all liderBuildable rows"
  then have "\<forall>x \<in> set rows. \<exists>L. transformLiderToHierarchicalWorker now x = Inr L"
    by (simp add: list_all_iff lider_Inr_iff)
  from mapThrowing_total [OF this] show "\<exists>tree. transformToHierarchicalWorkers now rows = Inr tree"
    by (simp add: transformToHierarchicalWorkers_def)
qed

lemma tree_Inl: "transformToHierarchicalWorkers now rows = Inl e \<Longrightarrow> e = ThrownTypeError"
proof -
  assume "transformToHierarchicalWorkers now rows = Inl e"
  then have "mapThrowing (transformLiderToHierarchicalWorker now) rows = Inl e"
    by (simp add: transformToHierarchicalWorkers_def)
  from mapThrowing_Inl [OF this] obtain l where "transformLiderToHierarchicalWorker now l = Inl e"
    by blast
  then show "e = ThrownTypeError" by (rule lider_Inl)
qed

lemma tree_throws:
  "\<not> list_all liderBuildable rows \<Longrightarrow> transformToHierarchicalWorkers now rows = Inl ThrownTypeError"
  using tree_Inr_iff [of now rows] tree_Inl [of now rows]
  by (cases "transformToHierarchicalWorkers now rows") auto

lemma tree_ids:
  "transformToHierarchicalWorkers now rows = Inr tree \<Longrightarrow>
   map hw_id tree = map id_row rows \<and> map hw_nombre tree = map nombre rows
   \<and> length tree = length rows"
proof -
  assume "transformToHierarchicalWorkers now rows = Inr tree"
  then have all: "list_all2 (\<lambda>l L. transformLiderToHierarchicalWorker now l = Inr L) rows tree"
    by (simp add: transformToHierarchicalWorkers_def mapThrowing_Inr_iff)
  from list_all2_lideres_ids [OF all] list_all2_lengthD [OF all]
  show "map hw_id tree = map id_row rows \<and> map hw_nombre tree = map nombre rows
      \<and> length tree = length rows"
    by simp
qed

subsection \<open>The scenario\<close>

lemma scenario_build: "transformToHierarchicalWorkers 0 scenarioRows = Inr scenarioTree"
  by (simp add: transformToHierarchicalWorkers_def transformLiderToHierarchicalWorker_def
      transformBrigadistaToHierarchicalWorker_def transformMovilizadorToHierarchicalWorker_def
      scenarioRows_def liderRow_def brigadistaRow_def movilizadorRow_def exampleRow_def
      WorkerRow.defs LiderWithHierarchy.defs BrigadistaWithHierarchy.defs
      MovilizadorWithHierarchy.defs Let_def andThen_def arrayOrEmpty_def
      calculateTotalCiudadanos_def movilizadoresTotal_def ciudadanosLength_def
      extractLocationInfo_def calculatePerformanceMetrics_def calculateDataCompleteness_def
      fields_of_def fieldCompleted_def trim_def isWhitespace_def ascii_def calculateTrend_def
      daysSinceCreation_def isWorkerActive_def scenarioTree_def scenarioNode_def)

lemma scenario_leafRows:
  "map (\<lambda>m. length (leafRows m)) (movilizadorRows scenarioRows) = [3, 7]"
  by (simp add: movilizadorRows_def rowsOf_def scenarioRows_def liderRow_def brigadistaRow_def
      movilizadorRow_def leafRows_def WorkerRow.defs LiderWithHierarchy.defs
      BrigadistaWithHierarchy.defs MovilizadorWithHierarchy.defs)

theorem transformToHierarchicalWorkers_counts_witness:
  "transformToHierarchicalWorkers 0 scenarioRows = Inr scenarioTree
   \<and> map hw_ciudadanosRegistrados scenarioTree = [10]
   \<and> map hw_ciudadanosRegistrados (level2Nodes scenarioTree) = [3, 7]
   \<and> map hw_ciudadanosRegistrados (level3Nodes scenarioTree) = [3, 7]
   \<and> map hw_ciudadanosRegistrados (concat (map movilizadorNodes scenarioTree)) = [3, 7]
   \<and> map (\<lambda>m. length (leafRows m)) (movilizadorRows scenarioRows) = [3, 7]
   \<and> sum_list (map hw_ciudadanosRegistrados (concat (map movilizadorNodes scenarioTree))) = 10"
proof -
  from transformToHierarchicalWorkers_counts [OF scenario_build]
  have "map hw_ciudadanosRegistrados (concat (map movilizadorNodes scenarioTree))
      = map (\<lambda>m. length (leafRows m)) (movilizadorRows scenarioRows)"
    by (rule conjunct2)
  with scenario_leafRows
  have leaves: "map hw_ciudadanosRegistrados (concat (map movilizadorNodes scenarioTree)) = [3, 7]"
    by simp
  have roots: "map hw_ciudadanosRegistrados scenarioTree = [10]"
    by (simp add: scenarioTree_def scenarioNode_def)
  have level2: "map hw_ciudadanosRegistrados (level2Nodes scenarioTree) = [3, 7]"
    by (simp add: level2Nodes_def scenarioTree_def scenarioNode_def)
  have level3: "map hw_ciudadanosRegistrados (level3Nodes scenarioTree) = [3, 7]"
    by (simp add: level3Nodes_def level2Nodes_def scenarioTree_def scenarioNode_def)
  from leaves
  have total: "sum_list (map hw_ciudadanosRegistrados (concat (map movilizadorNodes scenarioTree))) = 10"
    by (simp only:) simp
  from scenario_build roots level2 level3 leaves scenario_leafRows total show ?thesis
    by (intro conjI)
qed

subsection \<open>Tree builder: no validation of the rows\<close>

lemma getFromCache_empty: "getFromCache now key [] = (None, [])"
  by (simp add: getFromCache_def)

lemma getHierarchicalData_miss:
  "fst (getFromCache now (generateCacheKey ''hierarchical-data'' filters) cache) = None \<Longrightarrow>
   fst (getHierarchicalData now later filters gateway cache) =
     (case gateway of
        Throws thrown \<Rightarrow> Inl (rethrown thrown)
      | Returns result \<Rightarrow>
          (case (db_error result, db_data result) of
             (None, Some rows) \<Rightarrow>
               (case transformToHierarchicalWorkers later rows of
                  Inl thrown \<Rightarrow> Inl (rethrown thrown)
                | Inr hierarchicalData \<Rightarrow> Inr hierarchicalData)
           | _ \<Rightarrow> Inl (ServiceError ''Failed to fetch hierarchical data'')))"
  by (cases "getFromCache now (generateCacheKey ''hierarchical-data'' filters) cache")
     (simp add: getHierarchicalData_def Let_def
        split: option.splits GatewayOutcome.splits sum.splits)

lemma getHierarchicalData_hit:
  "fst (getFromCache now (generateCacheKey ''hierarchical-data'' filters) cache) = Some hit \<Longrightarrow>
   fst (getHierarchicalData now later filters gateway cache) = Inr hit"
  by (cases "getFromCache now (generateCacheKey ''hierarchical-data'' filters) cache")
     (simp add: getHierarchicalData_def Let_def)

lemma getHierarchicalData_rows:
  "fst (getFromCache now (generateCacheKey ''hierarchical-data'' filters) cache) = None \<Longrightarrow>
   fst (getHierarchicalData now later filters (gatewayRows rows) cache) =
     (case transformToHierarchicalWorkers later rows of
        Inl thrown \<Rightarrow> Inl (rethrown thrown)
      | Inr hierarchicalData \<Rightarrow> Inr hierarchicalData)"
  by (simp add: getHierarchicalData_miss gatewayRows_def)

lemma fieldsTyped_withoutIdentity: "fieldsTyped r \<Longrightarrow> fieldsTyped (withoutIdentity r)"
  by (simp add: fieldsTyped_def withoutIdentity_def stringOrFalsy_def)

lemma brigadistaBuildable_withoutIdentity:
  "brigadistaBuildable b \<Longrightarrow> brigadistaBuildable (brigadistaWithoutIdentity b)"
  by (cases "movilizadores b")
     (simp_all add: brigadistaBuildable_def brigadistaWithoutIdentity_def fieldsTyped_def
        withoutIdentity_def stringOrFalsy_def list_all_iff)

lemma liderBuildable_withoutIdentity:
  "liderBuildable l \<Longrightarrow> liderBuildable (liderWithoutIdentity l)"
  by (cases "brigadistas l")
     (simp_all add: liderBuildable_def liderWithoutIdentity_def fieldsTyped_def
        withoutIdentity_def stringOrFalsy_def list_all_iff brigadistaBuildable_withoutIdentity)

lemma malformedRows_malformed: "malformedInput malformedRows"
  by (simp add: malformedInput_def malformedRows_def rowMalformed_def exampleRow_def
      WorkerRow.defs LiderWithHierarchy.defs)

lemma cache_miss_empty:
  "fst (getFromCache 0 (generateCacheKey ''hierarchical-data'' None) clearCache) = None"
  by (simp add: clearCache_def getFromCache_empty)

text \<open>
  Claim C2, as amended. The tree builder checks neither the identity nor the name of a row and
  has no error of its own. On a cache miss, when the gateway returns a list of rows without an
  error, \<open>getHierarchicalData\<close> succeeds exactly when the build does not throw: in every lider,
  brigadista and movilizador row none of the ten fields that the data completeness reads holds
  a truthy value that is not a string, the \<^verbatim>\<open>brigadistas\<close> of every lider are an array, nothing
  or a falsy value, and the \<^verbatim>\<open>movilizadores\<close> of every brigadista are an array or nothing. It
  then returns the built tree, one root per lider row in order, whose \<^verbatim>\<open>id\<close> and \<^verbatim>\<open>nombre\<close> are
  those of the row as they are, missing ones included; and an input that builds still builds
  once every \<^verbatim>\<open>id\<close> and \<^verbatim>\<open>nombre\<close> is removed from it. In every other case the operation fails
  with the \<^verbatim>\<open>ServiceError\<close> \<^verbatim>\<open>Hierarchy service error\<close>, which wraps the \<^verbatim>\<open>TypeError\<close> of the
  build.
\<close>

theorem getHierarchicalData_builds_unvalidated:
  "fst (getFromCache now (generateCacheKey ''hierarchical-data'' filters) cache) = None \<Longrightarrow>
   (list_all liderBuildable rows \<longrightarrow>
      (\<exists>tree. fst (getHierarchicalData now later filters (gatewayRows rows) cache) = Inr tree
         \<and> transformToHierarchicalWorkers later rows = Inr tree
         \<and> length tree = length rows
         \<and> map hw_id tree = map id_row rows
         \<and> map hw_nombre tree = map nombre rows))
   \<and> (list_all liderBuildable rows \<longrightarrow> list_all liderBuildable (map liderWithoutIdentity rows))
   \<and> (\<not> list_all liderBuildable rows \<longrightarrow>
        transformToHierarchicalWorkers later rows = Inl ThrownTypeError
        \<and> fst (getHierarchicalData now later filters (gatewayRows rows) cache)
            = Inl (ServiceError ''Hierarchy service error''))"
proof -
  assume miss: "fst (getFromCache now (generateCacheKey ''hierarchical-data'' filters) cache) = None"
  have built: "\<exists>tree. fst (getHierarchicalData now later filters (gatewayRows rows) cache) = Inr tree
         \<and> transformToHierarchicalWorkers later rows = Inr tree
         \<and> length tree = length rows
         \<and> map hw_id tree = map id_row rows
         \<and> map hw_nombre tree = map nombre rows"
    if "list_all liderBuildable rows"
  proof -
    from that obtain tree where tree: "transformToHierarchicalWorkers later rows = Inr tree"
      using tree_Inr_iff [of later rows] by blast
    from tree have "fst (getHierarchicalData now later filters (gatewayRows rows) cache) = Inr tree"
      by (simp add: getHierarchicalData_rows [OF miss])
    with tree tree_ids [OF tree] show ?thesis
      by blast
  qed
  have stripped: "list_all liderBuildable (map liderWithoutIdentity rows)"
    if "list_all liderBuildable rows"
    using that by (simp add: list_all_iff liderBuildable_withoutIdentity)
  have thrown: "transformToHierarchicalWorkers later rows = Inl ThrownTypeError
      \<and> fst (getHierarchicalData now later filters (gatewayRows rows) cache)
          = Inl (ServiceError ''Hierarchy service error'')"
    if "\<not> list_all liderBuildable rows"
  proof -
    from that have "transformToHierarchicalWorkers later rows = Inl ThrownTypeError"
      by (rule tree_throws)
    then show ?thesis
      by (simp add: getHierarchicalData_rows [OF miss] rethrown_def)
  qed
  from built stripped thrown show ?thesis
    by blast
qed

theorem getHierarchicalData_builds_unvalidated_witness:
  "malformedInput malformedRows
   \<and> (\<exists>tree. fst (getHierarchicalData 0 0 None (gatewayRows malformedRows) clearCache) = Inr tree
        \<and> length tree = 1 \<and> map hw_id tree = [Missing] \<and> map hw_nombre tree = [Missing])
   \<and> list_all liderBuildable (map liderWithoutIdentity scenarioRows)
   \<and> fst (getHierarchicalData 0 0 None (gatewayRows untypedRows) clearCache)
       = Inl (ServiceError ''Hierarchy service error'')"
proof -
  note spec = getHierarchicalData_builds_unvalidated [OF cache_miss_empty]
  have ok: "list_all liderBuildable malformedRows"
    by (simp add: malformedRows_def liderBuildable_def fieldsTyped_def stringOrFalsy_def
        exampleRow_def WorkerRow.defs LiderWithHierarchy.defs)
  have fields: "length malformedRows = 1" "map id_row malformedRows = [Missing]"
      "map nombre malformedRows = [Missing]"
    by (simp_all add: malformedRows_def exampleRow_def WorkerRow.defs LiderWithHierarchy.defs)
  from spec [of malformedRows 0] ok fields
  have a: "\<exists>tree. fst (getHierarchicalData 0 0 None (gatewayRows malformedRows) clearCache) = Inr tree
        \<and> length tree = 1 \<and> map hw_id tree = [Missing] \<and> map hw_nombre tree = [Missing]"
    by auto
  have "list_all liderBuildable scenarioRows"
    using tree_Inr_iff [of 0 scenarioRows] scenario_build by blast
  with spec [of scenarioRows 0]
  have b: "list_all liderBuildable (map liderWithoutIdentity scenarioRows)"
    by blast
  have "\<not> list_all liderBuildable untypedRows"
    by (simp add: untypedRows_def numericSeccionRow_def liderBuildable_def fieldsTyped_def
        stringOrFalsy_def exampleRow_def WorkerRow.defs LiderWithHierarchy.defs)
  with spec [of untypedRows 0]
  have c: "fst (getHierarchicalData 0 0 None (gatewayRows untypedRows) clearCache)
       = Inl (ServiceError ''Hierarchy service error'')"
    by blast
  from malformedRows_malformed a b c show ?thesis
    by (intro conjI)
qed

text \<open>
  Claim C2, as stated, fails: a lider row without \<^verbatim>\<open>id\<close> and without \<^verbatim>\<open>nombre\<close> is malformed,
  and the build returns a tree for it, with a root that has neither.
\<close>

theorem build_error_counterexample:
  "malformedInput malformedRows
   \<and> fst (getHierarchicalData 0 0 None (gatewayRows malformedRows) clearCache)
       = Inr [HierarchicalWorker Missing Missing Lider 0
               \<lparr>entidad = Str (ascii ''Puebla''), municipio = Missing, seccion = Missing,
                colonia = Missing, codigo_postal = Str (ascii ''72000'')\<rparr> []
               \<lparr>ciudadanosRegistrados = 0, tasaVerificacion = 100, completitudDatos = 20,
                ranking = 0, tendencia = Up, ultimaActividad = Some 0\<rparr>
               Missing True (Some 0) None]"
proof -
  have "transformToHierarchicalWorkers 0 malformedRows =
     Inr [HierarchicalWorker Missing Missing Lider 0
               \<lparr>entidad = Str (ascii ''Puebla''), municipio = Missing, seccion = Missing,
                colonia = Missing, codigo_postal = Str (ascii ''72000'')\<rparr> []
               \<lparr>ciudadanosRegistrados = 0, tasaVerificacion = 100, completitudDatos = 20,
                ranking = 0, tendencia = Up, ultimaActividad = Some 0\<rparr>
               Missing True (Some 0) None]"
    by (simp add: transformToHierarchicalWorkers_def transformLiderToHierarchicalWorker_def
        malformedRows_def exampleRow_def WorkerRow.defs LiderWithHierarchy.defs Let_def
        andThen_def arrayOrEmpty_def calculateTotalCiudadanos_def extractLocationInfo_def
        calculatePerformanceMetrics_def calculateDataCompleteness_def
        fields_of_def fieldCompleted_def trim_def isWhitespace_def ascii_def calculateTrend_def
        daysSinceCreation_def isWorkerActive_def)
  with malformedRows_malformed getHierarchicalData_rows [OF cache_miss_empty, of 0 malformedRows]
  show ?thesis
    by simp
qed

subsection \<open>Ranking pass\<close>

lemma calculateWorkerScore_ranking:
  "calculateWorkerScore (w\<lparr>ranking := r\<rparr>) = calculateWorkerScore w"
  by (simp add: calculateWorkerScore_def)

lemma map_ranking_enumerate:
  "map ranking (map (\<lambda>(index, worker). worker\<lparr>ranking := index + 1\<rparr>) (enumerate n xs)) =
     [Suc n ..< Suc (n + length xs)]"
proof (induction xs arbitrary: n)
  case Nil
  then show ?case by simp
next
  case (Cons x xs)
  have "[Suc n ..< Suc (n + length (x # xs))] = Suc n # [Suc (Suc n) ..< Suc (Suc n + length xs)]"
    by (simp add: upt_conv_Cons del: upt_Suc)
  with Cons.IH [of "Suc n"] show ?case by (simp del: upt_Suc)
qed

lemma map_ranking_updateRankings:
  "map ranking (updateRankings xs) = [1 ..< Suc (length xs)]"
  unfolding updateRankings_def using map_ranking_enumerate [of 0 xs] by (simp del: upt_Suc map_map)

text \<open>What the pass keeps of a worker besides the ranking.\<close>

lemma map_kept_enumerate:
  "map (\<lambda>a. f (a\<lparr>ranking := 0\<rparr>))
     (map (\<lambda>(index, worker). worker\<lparr>ranking := index + 1\<rparr>) (enumerate n xs)) =
   map (\<lambda>a. f (a\<lparr>ranking := 0\<rparr>)) xs"
  by (induction xs arbitrary: n) simp_all

lemma map_kept_updateRankings:
  "map (\<lambda>a. f (a\<lparr>ranking := 0\<rparr>)) (updateRankings xs) = map (\<lambda>a. f (a\<lparr>ranking := 0\<rparr>)) xs"
  unfolding updateRankings_def by (rule map_kept_enumerate)

lemma map_kept_toWorkerAnalytics:
  "map (\<lambda>a. f (a\<lparr>ranking := 0\<rparr>))
     (map (\<lambda>(index, worker). toWorkerAnalytics index worker) (enumerate n ws)) =
   map (\<lambda>w. f (toWorkerAnalytics 0 w\<lparr>ranking := 0\<rparr>)) ws"
  by (induction ws arbitrary: n) (simp_all add: toWorkerAnalytics_def)

lemma set_kept_rankWorkers:
  "set (map (\<lambda>a. f (a\<lparr>ranking := 0\<rparr>)) (rankWorkers ws))
     = set (map (\<lambda>w. f (toWorkerAnalytics 0 w\<lparr>ranking := 0\<rparr>)) ws)"
proof -
  let ?g = "\<lambda>a. f (a\<lparr>ranking := 0\<rparr>)"
  let ?X = "map (\<lambda>(index, worker). toWorkerAnalytics index worker) (enumerate 0 ws)"
  have "map ?g (rankWorkers ws) = map ?g (sortedAnalytics ?X)"
    by (simp only: rankWorkers_def map_kept_updateRankings)
  then have "set (map ?g (rankWorkers ws)) = ?g ` set (sortedAnalytics ?X)"
    by (simp only: set_map)
  also have "set (sortedAnalytics ?X) = set ?X"
    by (simp add: sortedAnalytics_def)
  also have "?g ` set ?X = set (map ?g ?X)"
    by (simp only: set_map)
  also have "\<dots> = set (map (\<lambda>w. f (toWorkerAnalytics 0 w\<lparr>ranking := 0\<rparr>)) ws)"
    by (simp only: map_kept_toWorkerAnalytics)
  finally show ?thesis .
qed

lemma length_updateRankings: "length (updateRankings xs) = length xs"
  by (simp add: updateRankings_def)

lemma length_sortedAnalytics: "length (sortedAnalytics xs) = length xs"
  by (simp add: sortedAnalytics_def)

lemma length_rankWorkers: "length (rankWorkers ws) = length ws"
  by (simp add: rankWorkers_def length_updateRankings length_sortedAnalytics)

lemma sorted_desc_sortedAnalytics:
  "sorted_wrt (\<lambda>a b. calculateWorkerScore a \<ge> calculateWorkerScore b) (sortedAnalytics xs)"
proof -
  have "sorted (map (\<lambda>a. - calculateWorkerScore a) (sortedAnalytics xs))"
    by (simp add: sortedAnalytics_def)
  then show ?thesis
    by (simp add: sorted_map)
qed

lemma sorted_desc_rankWorkers:
  "sorted_wrt (\<lambda>a b. calculateWorkerScore a \<ge> calculateWorkerScore b) (rankWorkers ws)"
proof -
  let ?X = "map (\<lambda>(index, worker). toWorkerAnalytics index worker) (enumerate 0 ws)"
  have score: "calculateWorkerScore = (\<lambda>a. calculateWorkerScore (a\<lparr>ranking := 0\<rparr>))"
    by (rule ext) (simp add: calculateWorkerScore_ranking)
  have "sorted_wrt (\<ge>) (map calculateWorkerScore (sortedAnalytics ?X))"
    using sorted_desc_sortedAnalytics [of ?X] by (simp add: sorted_wrt_map)
  moreover have "map calculateWorkerScore (rankWorkers ws)
      = map calculateWorkerScore (sortedAnalytics ?X)"
    unfolding rankWorkers_def by (subst (1 2) score) (rule map_kept_updateRankings)
  ultimately have "sorted_wrt (\<ge>) (map calculateWorkerScore (rankWorkers ws))"
    by simp
  then show ?thesis
    by (simp add: sorted_wrt_map)
qed

lemma getWorkerAnalytics_empty: "getWorkerAnalytics = []"
  by (simp add: getWorkerAnalytics_def getFlattenedHierarchyTemp_def rankWorkers_def
      sortedAnalytics_def updateRankings_def)

text \<open>
  Claim C4, as amended. After the ranking pass over \<open>N\<close> flattened workers the rankings are
  1, 2, ..., \<open>N\<close> in the order of the returned list: the set of rankings is exactly \<open>{1..N}\<close>, no
  ranking occurs twice, and the list has \<open>N\<close> entries, which carry the ids, verification rates,
  data completeness and registered counts of the workers given. The ranking is \<^verbatim>\<open>index + 1\<close>
  over the list in descending order not of the composite score but of the score of the pass,
  (verification rate + data completeness + 2 * registered count) / 4. In the source the pass
  is fed by a stand-in that returns no worker, so there \<open>N\<close> is 0.
\<close>

theorem rankWorkers_dense:
  "map ranking (rankWorkers flattened) = [1 ..< Suc (length flattened)]
   \<and> set (map ranking (rankWorkers flattened)) = {1 .. length flattened}
   \<and> distinct (map ranking (rankWorkers flattened))
   \<and> length (rankWorkers flattened) = length flattened
   \<and> sorted_wrt
        (\<lambda>a b. rankingScore (tasaVerificacion a) (completitudDatos a) (ciudadanosRegistrados a)
             \<ge> rankingScore (tasaVerificacion b) (completitudDatos b) (ciudadanosRegistrados b))
        (rankWorkers flattened)
   \<and> set (map (\<lambda>a. (workerId a, tasaVerificacion a, completitudDatos a, ciudadanosRegistrados a))
             (rankWorkers flattened))
       = set (map (\<lambda>w. (hw_id w, tasaVerificacion (hw_performance w),
                        completitudDatos (hw_performance w), hw_ciudadanosRegistrados w))
               flattened)
   \<and> getWorkerAnalytics = rankWorkers []
   \<and> getWorkerAnalytics = []"
proof -
  let ?sorted = "sortedAnalytics
     (map (\<lambda>(index, worker). toWorkerAnalytics index worker) (enumerate 0 flattened))"
  have len: "length ?sorted = length flattened"
    by (simp add: length_sortedAnalytics)
  have ranks: "map ranking (rankWorkers flattened) = [1 ..< Suc (length flattened)]"
    by (simp add: rankWorkers_def map_ranking_updateRankings len)
  have "set [1 ..< Suc (length flattened)] = {1 .. length flattened}"
    by auto
  with ranks have range: "set (map ranking (rankWorkers flattened)) = {1 .. length flattened}"
    by simp
  have dist: "distinct (map ranking (rankWorkers flattened))"
    by (simp only: ranks distinct_upt)
  have formula: "calculateWorkerScore
      = (\<lambda>a :: WorkerAnalytics.
           rankingScore (tasaVerificacion a) (completitudDatos a) (ciudadanosRegistrados a))"
    by (rule ext) (simp add: calculateWorkerScore_def rankingScore_def)
  have ord: "sorted_wrt
        (\<lambda>a b. rankingScore (tasaVerificacion a) (completitudDatos a) (ciudadanosRegistrados a)
             \<ge> rankingScore (tasaVerificacion b) (completitudDatos b) (ciudadanosRegistrados b))
        (rankWorkers flattened)"
    using sorted_desc_rankWorkers [of flattened] by (simp only: formula)
  have kept: "set (map (\<lambda>a. (workerId a, tasaVerificacion a, completitudDatos a,
                              ciudadanosRegistrados a)) (rankWorkers flattened))
       = set (map (\<lambda>w. (hw_id w, tasaVerificacion (hw_performance w),
                        completitudDatos (hw_performance w), hw_ciudadanosRegistrados w))
               flattened)"
    using set_kept_rankWorkers
      [of "\<lambda>a. (workerId a, tasaVerificacion a, completitudDatos a, ciudadanosRegistrados a)"
          flattened]
    by (simp add: toWorkerAnalytics_def)
  have stub: "getWorkerAnalytics = rankWorkers []"
    by (simp add: getWorkerAnalytics_def getFlattenedHierarchyTemp_def)
  from ranks range dist length_rankWorkers [of flattened] ord kept stub getWorkerAnalytics_empty
  show ?thesis
    by (intro conjI)
qed

text \<open>
  Claim C4, as stated, fails: worker X (active, 1 registration) has the higher composite score,
  77.5 against 75, so the ranking over the list sorted by composite score gives X the ranking 1;
  the pass gives the ranking 1 to worker Y (inactive, 20 registrations).
\<close>

theorem ranking_order_counterexample:
  "compositeScoreOf (exampleWorker ''X'' 1 100 100 True) = 77.5
   \<and> compositeScoreOf (exampleWorker ''Y'' 20 100 100 False) = 75
   \<and> rankingByCompositeScore
        [exampleWorker ''X'' 1 100 100 True, exampleWorker ''Y'' 20 100 100 False]
      = [(Str (ascii ''X''), 1), (Str (ascii ''Y''), 2)]
   \<and> map (\<lambda>a. (workerId a, ranking a))
        (rankWorkers [exampleWorker ''X'' 1 100 100 True, exampleWorker ''Y'' 20 100 100 False])
      = [(Str (ascii ''Y''), 1), (Str (ascii ''X''), 2)]"
  by (simp add: compositeScoreOf_def compositeScore_def exampleWorker_def calculateWorkerScore_def
      toWorkerAnalytics_def rankWorkers_def sortedAnalytics_def updateRankings_def
      rankingByCompositeScore_def)

subsection \<open>Composite score\<close>

text \<open>
  Claim C3, as amended. \<open>calculateOverallPerformanceScore\<close> is the composite score of the
  specification, (verification rate + data completeness + activity score + registration score) / 4
  with an activity score of 100 for an active node and 0 otherwise and a registration score of
  min(registered count * 10, 100), and the filter by performance band classifies by it. The
  ranking pass sorts by another score, \<open>calculateWorkerScore\<close>, which is
  (verification rate + data completeness + 2 * registered count) / 4: no activity term, no cap.
\<close>

theorem score_formulas:
  "calculateOverallPerformanceScore worker =
     compositeScore (tasaVerificacion (hw_performance worker))
       (completitudDatos (hw_performance worker)) (hw_isActive worker)
       (hw_ciudadanosRegistrados worker)
   \<and> workersByPerformance level tree =
       filter (\<lambda>w. inLevel level (compositeScoreOf w)) (flattenHierarchy tree)
   \<and> calculateWorkerScore (toWorkerAnalytics index worker) =
       (tasaVerificacion (hw_performance worker) + completitudDatos (hw_performance worker)
        + 2 * real (hw_ciudadanosRegistrados worker)) / 4
   \<and> sorted_wrt (\<lambda>a b. calculateWorkerScore a \<ge> calculateWorkerScore b) (sortedAnalytics analytics)"
proof -
  have eq: "calculateOverallPerformanceScore = compositeScoreOf"
    by (rule ext) (simp add: calculateOverallPerformanceScore_def compositeScoreOf_def
        compositeScore_def Let_def)
  show ?thesis
    using sorted_desc_sortedAnalytics [of analytics]
    by (simp add: eq workersByPerformance_def compositeScoreOf_def
        calculateWorkerScore_def toWorkerAnalytics_def)
qed

text \<open>
  Claim C3, as stated, fails for the ranking pass: worker A (active, no registrations) has the
  higher composite score, 25 against 12.5, and the pass ranks worker B (inactive, 5
  registrations) first.
\<close>

theorem ranking_score_counterexample:
  "compositeScoreOf (exampleWorker ''A'' 0 0 0 True) = 25
   \<and> compositeScoreOf (exampleWorker ''B'' 5 0 0 False) = 12.5
   \<and> calculateWorkerScore (toWorkerAnalytics 0 (exampleWorker ''A'' 0 0 0 True)) = 0
   \<and> calculateWorkerScore (toWorkerAnalytics 1 (exampleWorker ''B'' 5 0 0 False)) = 2.5
   \<and> map (\<lambda>a. (workerId a, ranking a))
        (rankWorkers [exampleWorker ''A'' 0 0 0 True, exampleWorker ''B'' 5 0 0 False])
      = [(Str (ascii ''B''), 1), (Str (ascii ''A''), 2)]"
  by (simp add: compositeScoreOf_def compositeScore_def exampleWorker_def calculateWorkerScore_def
      toWorkerAnalytics_def rankWorkers_def sortedAnalytics_def updateRankings_def)

subsection \<open>Performance bands\<close>

lemma flattenHierarchy_exampleWorker:
  "flattenHierarchy [exampleWorker name k v c a] = [withLevel 0 (exampleWorker name k v c a)]"
  by (simp add: flattenHierarchy_def exampleWorker_def)





lemma getWorkersByPerformance_result:
  "fst (getWorkersByPerformance now later level filters gateway cache) =
     (case fst (getHierarchicalData now later filters gateway cache) of
        Inl e \<Rightarrow> Inl (ServiceError ''Failed to get workers by performance'')
      | Inr hierarchicalData \<Rightarrow> Inr (workersByPerformance level hierarchicalData))"
  by (cases "getHierarchicalData now later filters gateway cache")
     (simp add: getWorkersByPerformance_def split: sum.splits)


subsection \<open>Cache expiry\<close>

lemma getFromCache_fresh:
  "map_of cache key = Some cached \<Longrightarrow> now - timestamp cached \<le> CACHE_TTL \<Longrightarrow>
   getFromCache now key cache = (Some (data cached), cache)"
  by (simp add: getFromCache_def)

lemma getFromCache_stale:
  "map_of cache key = Some cached \<Longrightarrow> now - timestamp cached > CACHE_TTL \<Longrightarrow>
   getFromCache now key cache = (None, AList.delete key cache)"
  by (simp add: getFromCache_def)

lemma getFromCache_absent:
  "map_of cache key = None \<Longrightarrow> getFromCache now key cache = (None, cache)"
  by (simp add: getFromCache_def)

lemma map_of_delete_same: "map_of (AList.delete key cache) key = None"
  by (simp add: delete_conv')

lemma length_update:
  "length (AList.update k v al) = (if k \<in> fst ` set al then length al else Suc (length al))"
  by (induction al) auto

lemma update_head_key:
  "AList.update k v al = (k0, x) # rest \<Longrightarrow> k0 = k \<Longrightarrow> al = [] \<or> k \<in> fst ` set al"
  by (cases al) (auto split: if_splits)

lemma setCache_stores:
  assumes "length cache \<le> 100"
  shows "map_of (setCache T key v cache) key = Some \<lparr>data = v, timestamp = T\<rparr>"
proof -
  let ?e = "\<lparr>data = v, timestamp = T\<rparr>"
  let ?c = "AList.update key ?e cache"
  have stored: "map_of ?c key = Some ?e"
    by (simp add: update_conv')
  show ?thesis
  proof (cases "length ?c > 100")
    case False
    with stored show ?thesis by (simp add: setCache_def Let_def)
  next
    case True
    obtain k0 x rest where c: "?c = (k0, x) # rest"
      by (cases ?c) auto
    have "k0 \<noteq> key"
    proof
      assume "k0 = key"
      with c have "cache = [] \<or> key \<in> fst ` set cache"
        by (rule update_head_key [of key ?e cache k0 x rest])
      then show False
      proof
        assume "cache = []"
        with True show False by simp
      next
        assume "key \<in> fst ` set cache"
        then have "length ?c = length cache" by (simp add: length_update)
        with True assms show False by simp
      qed
    qed
    then have deleted: "map_of (AList.delete k0 ?c) key = Some ?e"
      using stored by simp
    have sc: "setCache T key v cache = (if k0 \<noteq> [] then AList.delete k0 ?c else ?c)"
      unfolding setCache_def Let_def using True by (simp add: c)
    from stored deleted show ?thesis
      unfolding sc by (cases "k0 = []") auto
  qed
qed

lemma setCache_entry:
  "map_of (setCache T key v cache) key = None
   \<or> map_of (setCache T key v cache) key = Some \<lparr>data = v, timestamp = T\<rparr>"
proof -
  let ?e = "\<lparr>data = v, timestamp = T\<rparr>"
  let ?c = "AList.update key ?e cache"
  have stored: "map_of ?c key = Some ?e"
    by (simp add: update_conv')
  have del: "map_of (AList.delete k0 ?c) key = None \<or> map_of (AList.delete k0 ?c) key = Some ?e" for k0
    using stored by (cases "k0 = key") (simp_all add: delete_conv')
  show ?thesis
  proof (cases ?c)
    case Nil
    then show ?thesis by simp
  next
    case (Cons p rest)
    obtain k0 x where p: "p = (k0, x)" by (cases p)
    have sc: "setCache T key v cache =
        (if length ?c > 100 \<and> k0 \<noteq> [] then AList.delete k0 ?c else ?c)"
      unfolding setCache_def Let_def by (simp add: Cons p)
    from del [of k0] stored show ?thesis
      unfolding sc by (cases "length ?c > 100 \<and> k0 \<noteq> []") auto
  qed
qed

lemma setCache_then_expired:
  "getFromCache (T + CACHE_TTL + 1) key (setCache T key v cache)
     = (None, AList.delete key (setCache T key v cache))"
proof -
  from setCache_entry [of T key v cache] show ?thesis
  proof
    assume "map_of (setCache T key v cache) key = None"
    then have "key \<notin> fst ` set (setCache T key v cache)"
      by (simp add: map_of_eq_None_iff)
    with \<open>map_of (setCache T key v cache) key = None\<close> show ?thesis
      by (simp add: getFromCache_def)
  next
    assume "map_of (setCache T key v cache) key = Some \<lparr>data = v, timestamp = T\<rparr>"
    then show ?thesis
      by (simp add: getFromCache_def)
  qed
qed

text \<open>
  Claim C8. A cache read at time \<open>now\<close> returns the stored value when
  \<open>now - storedAt \<le> TTL\<close> and leaves the cache as it is; when \<open>now - storedAt > TTL\<close> it
  returns nothing and deletes the entry; a key that is not in the cache reads as nothing. A value
  stored at time \<open>T\<close> and read at \<open>T + TTL + 1\<close> is absent, and the key is no longer in the
  cache afterwards; read at \<open>T + TTL\<close> it is still returned (the cache holding at most 100
  entries before the write, as it always does).
\<close>

theorem getFromCache_expiry:
  "(map_of cache key = Some cached \<and> now - timestamp cached \<le> CACHE_TTL \<longrightarrow>
      getFromCache now key cache = (Some (data cached), cache))
   \<and> (map_of cache key = Some cached \<and> now - timestamp cached > CACHE_TTL \<longrightarrow>
      getFromCache now key cache = (None, AList.delete key cache)
      \<and> map_of (AList.delete key cache) key = None)
   \<and> (map_of cache key = None \<longrightarrow> getFromCache now key cache = (None, cache))
   \<and> fst (getFromCache (T + CACHE_TTL + 1) key (setCache T key v cache)) = None
   \<and> map_of (snd (getFromCache (T + CACHE_TTL + 1) key (setCache T key v cache))) key = None
   \<and> (length cache \<le> 100 \<longrightarrow>
      getFromCache (T + CACHE_TTL) key (setCache T key v cache)
        = (Some v, setCache T key v cache))"
proof -
  have stored: "getFromCache (T + CACHE_TTL) key (setCache T key v cache)
        = (Some v, setCache T key v cache)" if "length cache \<le> 100"
    using setCache_stores [OF that, of T key v]
    by (simp add: getFromCache_def)
  show ?thesis
    using getFromCache_fresh [of cache key cached now] getFromCache_stale [of cache key cached now]
      getFromCache_absent [of cache key now] stored
    by (simp add: setCache_then_expired map_of_delete_same)
qed

theorem getFromCache_expiry_witness:
  "getFromCache 300000 ''k'' [(''k'', \<lparr>data = (7::nat), timestamp = 0\<rparr>)] = (Some 7, [(''k'', \<lparr>data = 7, timestamp = 0\<rparr>)])
   \<and> getFromCache 300001 ''k'' [(''k'', \<lparr>data = (7::nat), timestamp = 0\<rparr>)] = (None, [])
   \<and> getFromCache 5 ''k'' ([] :: nat Cache) = (None, [])
   \<and> getFromCache 300000 ''k'' (setCache 0 ''k'' (7::nat) []) = (Some 7, setCache 0 ''k'' 7 [])"
proof -
  let ?c = "[(''k'', \<lparr>data = (7::nat), timestamp = 0\<rparr>)]"
  have look: "map_of ?c ''k'' = Some \<lparr>data = 7, timestamp = 0\<rparr>"
    by simp
  have fresh: "(300000::int) - timestamp \<lparr>data = (7::nat), timestamp = 0\<rparr> \<le> CACHE_TTL"
    by (simp add: CACHE_TTL_def)
  have stale: "(300001::int) - timestamp \<lparr>data = (7::nat), timestamp = 0\<rparr> > CACHE_TTL"
    by (simp add: CACHE_TTL_def)
  have none: "map_of ([] :: nat Cache) ''k'' = None"
    by simp
  have small: "length ([] :: nat Cache) \<le> 100"
    by simp
  from getFromCache_expiry [of ?c "''k''" "\<lparr>data = 7, timestamp = 0\<rparr>" 300000 0 7] look fresh
  have a: "getFromCache 300000 ''k'' ?c = (Some 7, ?c)"
    by simp
  from getFromCache_expiry [of ?c "''k''" "\<lparr>data = 7, timestamp = 0\<rparr>" 300001 0 7] look stale
  have b: "getFromCache 300001 ''k'' ?c = (None, [])"
    by simp
  from getFromCache_expiry [of "[] :: nat Cache" "''k''" "\<lparr>data = 7, timestamp = 0\<rparr>" 5 0 7] none
  have c: "getFromCache 5 ''k'' ([] :: nat Cache) = (None, [])"
    by simp
  from getFromCache_expiry [of "[] :: nat Cache" "''k''" "\<lparr>data = 7, timestamp = 0\<rparr>" 5 0 7] small
  have d: "getFromCache 300000 ''k'' (setCache 0 ''k'' (7::nat) []) = (Some 7, setCache 0 ''k'' 7 [])"
    by (simp add: CACHE_TTL_def)
  from a b c d show ?thesis
    by blast
qed

subsection \<open>Hierarchy statistics\<close>

lemma counters_foldl_visitMovilizador:
  "counters (foldl visitMovilizador acc ms) =
     (totalLideres acc, totalBrigadistas acc, totalMovilizadores acc + length ms,
      totalCiudadanos acc + sum_list (map hw_ciudadanosRegistrados ms))"
  by (induction ms arbitrary: acc) (simp_all add: counters_def visitMovilizador_def)

lemma counters_visitBrigadista:
  "counters (visitBrigadista acc b) =
     (totalLideres acc, totalBrigadistas acc + 1,
      totalMovilizadores acc + length (hw_children b),
      totalCiudadanos acc + sum_list (map hw_ciudadanosRegistrados (hw_children b)))"
  by (simp add: visitBrigadista_def counters_foldl_visitMovilizador)

lemma counters_foldl_visitBrigadista:
  "counters (foldl visitBrigadista acc bs) =
     (totalLideres acc, totalBrigadistas acc + length bs,
      totalMovilizadores acc + length (concat (map hw_children bs)),
      totalCiudadanos acc + sum_list (map hw_ciudadanosRegistrados (concat (map hw_children bs))))"
proof (induction bs arbitrary: acc)
  case Nil
  then show ?case by (simp add: counters_def)
next
  case (Cons b bs)
  have step: "counters (visitBrigadista acc b) = (l, k, m, c) \<Longrightarrow>
      totalLideres (visitBrigadista acc b) = l \<and> totalBrigadistas (visitBrigadista acc b) = k
      \<and> totalMovilizadores (visitBrigadista acc b) = m \<and> totalCiudadanos (visitBrigadista acc b) = c"
    for l k m c
    by (simp add: counters_def)
  from step [OF counters_visitBrigadista] show ?case
    by (simp add: Cons.IH)
qed

lemma counters_visitLider:
  "counters (visitLider acc l) =
     (totalLideres acc + 1, totalBrigadistas acc + length (hw_children l),
      totalMovilizadores acc + length (concat (map hw_children (hw_children l))),
      totalCiudadanos acc
        + sum_list (map hw_ciudadanosRegistrados (concat (map hw_children (hw_children l)))))"
  by (simp add: visitLider_def counters_foldl_visitBrigadista)

lemma counters_foldl_visitLider:
  "counters (foldl visitLider acc tree) =
     (totalLideres acc + length tree, totalBrigadistas acc + length (level2Nodes tree),
      totalMovilizadores acc + length (level3Nodes tree),
      totalCiudadanos acc + sum_list (map hw_ciudadanosRegistrados (level3Nodes tree)))"
proof (induction tree arbitrary: acc)
  case Nil
  then show ?case by (simp add: counters_def level2Nodes_def level3Nodes_def)
next
  case (Cons l tree)
  have step: "counters (visitLider acc l) = (a, k, m, c) \<Longrightarrow>
      totalLideres (visitLider acc l) = a \<and> totalBrigadistas (visitLider acc l) = k
      \<and> totalMovilizadores (visitLider acc l) = m \<and> totalCiudadanos (visitLider acc l) = c"
    for a k m c
    by (simp add: counters_def)
  from step [OF counters_visitLider] show ?case
    by (simp add: Cons.IH level2Nodes_def level3Nodes_def)
qed

lemma counters_hierarchyStats:
  "counters (hierarchyStats tree) =
     (length tree, length (level2Nodes tree), length (level3Nodes tree),
      sum_list (map hw_ciudadanosRegistrados (level3Nodes tree)))"
proof -
  have "counters (hierarchyStats tree) = counters (foldl visitLider initialTotals tree)"
    by (simp add: hierarchyStats_def Let_def counters_def StatsTotals.defs)
  then show ?thesis
    by (simp add: counters_foldl_visitLider initialTotals_def)
qed

lemma averages_hierarchyStats:
  "averageCiudadanosPorLider (hierarchyStats tree) =
     (if totalLideres (hierarchyStats tree) > 0
      then jsDivide (totalCiudadanos (hierarchyStats tree)) (totalLideres (hierarchyStats tree))
      else Finite 0)
   \<and> averageCiudadanosPorBrigadista (hierarchyStats tree) =
     (if totalBrigadistas (hierarchyStats tree) > 0
      then jsDivide (totalCiudadanos (hierarchyStats tree)) (totalBrigadistas (hierarchyStats tree))
      else Finite 0)
   \<and> averageCiudadanosPorMovilizador (hierarchyStats tree) =
     (if totalMovilizadores (hierarchyStats tree) > 0
      then jsDivide (totalCiudadanos (hierarchyStats tree)) (totalMovilizadores (hierarchyStats tree))
      else Finite 0)"
  by (simp add: hierarchyStats_def Let_def StatsTotals.defs)

lemma guarded_average:
  "(if n > 0 then jsDivide c n else Finite 0) = (if n = 0 then Finite 0 else Finite (real c / real n))"
  by (simp add: jsDivide_def)

lemma scenario_level3:
  "\<exists>tree. transformToHierarchicalWorkers now scenarioRows = Inr tree
     \<and> map hw_ciudadanosRegistrados tree = [10]
     \<and> map hw_ciudadanosRegistrados (level3Nodes tree) = [3, 7]
     \<and> length (level2Nodes tree) = 2"
  by (simp add: transformToHierarchicalWorkers_def transformLiderToHierarchicalWorker_def
      transformBrigadistaToHierarchicalWorker_def transformMovilizadorToHierarchicalWorker_def
      scenarioRows_def liderRow_def brigadistaRow_def movilizadorRow_def exampleRow_def
      WorkerRow.defs LiderWithHierarchy.defs BrigadistaWithHierarchy.defs
      MovilizadorWithHierarchy.defs Let_def andThen_def arrayOrEmpty_def
      calculateTotalCiudadanos_def movilizadoresTotal_def ciudadanosLength_def
      calculatePerformanceMetrics_def calculateDataCompleteness_def
      fields_of_def fieldCompleted_def trim_def isWhitespace_def ascii_def
      level2Nodes_def level3Nodes_def)

lemma getHierarchyStats_result:
  "fst (getHierarchyStats now later filters gateway cache) =
     (case fst (getHierarchicalData now later filters gateway cache) of
        Inl e \<Rightarrow> Inl (ServiceError ''Failed to calculate hierarchy statistics'')
      | Inr hierarchicalData \<Rightarrow> Inr (hierarchyStats hierarchicalData))"
  by (cases "getHierarchicalData now later filters gateway cache")
     (simp add: getHierarchyStats_def split: sum.splits)

text \<open>
  Claim C9. For every tree, \<open>getHierarchyStats\<close> counts the nodes of each level and the leaves
  (the sum of the counts of the level-3 nodes), and each per-level average is the total of
  leaves divided by the number of nodes of the level, and 0 when the level has no node: the
  division is guarded, so an average is never \<open>NaN\<close> and never \<open>Infinity\<close>. In the scenario
  of one lider with two brigadistas, each with one movilizador, of 3 and 7 ciudadanos, the root counts 10, there are 2
  movilizadores and 10 ciudadanos, and the average per movilizador is exactly 5.
\<close>

theorem hierarchyStats_averages:
  "totalLideres (hierarchyStats tree) = length tree
   \<and> totalBrigadistas (hierarchyStats tree) = length (level2Nodes tree)
   \<and> totalMovilizadores (hierarchyStats tree) = length (level3Nodes tree)
   \<and> totalCiudadanos (hierarchyStats tree)
       = sum_list (map hw_ciudadanosRegistrados (level3Nodes tree))
   \<and> averageCiudadanosPorLider (hierarchyStats tree) =
       (if totalLideres (hierarchyStats tree) = 0 then Finite 0
        else Finite (real (totalCiudadanos (hierarchyStats tree))
                     / real (totalLideres (hierarchyStats tree))))
   \<and> averageCiudadanosPorBrigadista (hierarchyStats tree) =
       (if totalBrigadistas (hierarchyStats tree) = 0 then Finite 0
        else Finite (real (totalCiudadanos (hierarchyStats tree))
                     / real (totalBrigadistas (hierarchyStats tree))))
   \<and> averageCiudadanosPorMovilizador (hierarchyStats tree) =
       (if totalMovilizadores (hierarchyStats tree) = 0 then Finite 0
        else Finite (real (totalCiudadanos (hierarchyStats tree))
                     / real (totalMovilizadores (hierarchyStats tree))))
   \<and> averageCiudadanosPorLider (hierarchyStats tree) \<notin> {NaN, Infinity}
   \<and> averageCiudadanosPorBrigadista (hierarchyStats tree) \<notin> {NaN, Infinity}
   \<and> averageCiudadanosPorMovilizador (hierarchyStats tree) \<notin> {NaN, Infinity}
   \<and> (\<exists>scenario. transformToHierarchicalWorkers now scenarioRows = Inr scenario
         \<and> map hw_ciudadanosRegistrados scenario = [10]
         \<and> totalMovilizadores (hierarchyStats scenario) = 2
         \<and> totalCiudadanos (hierarchyStats scenario) = 10
         \<and> averageCiudadanosPorMovilizador (hierarchyStats scenario) = Finite 5)
   \<and> fst (getHierarchyStats clock later filters gateway cache) =
       (case fst (getHierarchicalData clock later filters gateway cache) of
          Inl e \<Rightarrow> Inl (ServiceError ''Failed to calculate hierarchy statistics'')
        | Inr hierarchicalData \<Rightarrow> Inr (hierarchyStats hierarchicalData))"
proof -
  have totals: "totalLideres (hierarchyStats t) = length t
      \<and> totalBrigadistas (hierarchyStats t) = length (level2Nodes t)
      \<and> totalMovilizadores (hierarchyStats t) = length (level3Nodes t)
      \<and> totalCiudadanos (hierarchyStats t)
          = sum_list (map hw_ciudadanosRegistrados (level3Nodes t))" for t
    using counters_hierarchyStats [of t] by (simp add: counters_def)
  have avg: "averageCiudadanosPorLider (hierarchyStats t) =
       (if totalLideres (hierarchyStats t) = 0 then Finite 0
        else Finite (real (totalCiudadanos (hierarchyStats t))
                     / real (totalLideres (hierarchyStats t))))
      \<and> averageCiudadanosPorBrigadista (hierarchyStats t) =
       (if totalBrigadistas (hierarchyStats t) = 0 then Finite 0
        else Finite (real (totalCiudadanos (hierarchyStats t))
                     / real (totalBrigadistas (hierarchyStats t))))
      \<and> averageCiudadanosPorMovilizador (hierarchyStats t) =
       (if totalMovilizadores (hierarchyStats t) = 0 then Finite 0
        else Finite (real (totalCiudadanos (hierarchyStats t))
                     / real (totalMovilizadores (hierarchyStats t))))" for t
    using averages_hierarchyStats [of t] by (simp only: guarded_average)
  have finite: "averageCiudadanosPorLider (hierarchyStats t) \<notin> {NaN, Infinity}
      \<and> averageCiudadanosPorBrigadista (hierarchyStats t) \<notin> {NaN, Infinity}
      \<and> averageCiudadanosPorMovilizador (hierarchyStats t) \<notin> {NaN, Infinity}" for t
    using avg [of t] by (auto split: if_splits)
  from scenario_level3 [of now] obtain s where
    built: "transformToHierarchicalWorkers now scenarioRows = Inr s"
    and root: "map hw_ciudadanosRegistrados s = [10]"
    and level3: "map hw_ciudadanosRegistrados (level3Nodes s) = [3, 7]"
    by (elim exE conjE)
  have "length (level3Nodes s) = length (map hw_ciudadanosRegistrados (level3Nodes s))"
    by simp
  also have "\<dots> = 2"
    by (simp only: level3) simp
  finally have len3: "length (level3Nodes s) = 2" .
  have sum3: "sum_list (map hw_ciudadanosRegistrados (level3Nodes s)) = 10"
    by (simp only: level3) simp
  from totals [of s] len3 sum3
  have sc: "totalMovilizadores (hierarchyStats s) = 2" "totalCiudadanos (hierarchyStats s) = 10"
    by simp_all
  from avg [of s] sc have five: "averageCiudadanosPorMovilizador (hierarchyStats s) = Finite 5"
    by simp
  from built root sc five
  have "transformToHierarchicalWorkers now scenarioRows = Inr s
         \<and> map hw_ciudadanosRegistrados s = [10]
         \<and> totalMovilizadores (hierarchyStats s) = 2
         \<and> totalCiudadanos (hierarchyStats s) = 10
         \<and> averageCiudadanosPorMovilizador (hierarchyStats s) = Finite 5"
    by (intro conjI)
  then have scenario: "\<exists>scenario. transformToHierarchicalWorkers now scenarioRows = Inr scenario
         \<and> map hw_ciudadanosRegistrados scenario = [10]
         \<and> totalMovilizadores (hierarchyStats scenario) = 2
         \<and> totalCiudadanos (hierarchyStats scenario) = 10
         \<and> averageCiudadanosPorMovilizador (hierarchyStats scenario) = Finite 5"
    by (rule exI)
  from totals [of tree] avg [of tree] finite [of tree] scenario
    getHierarchyStats_result [of clock later filters gateway cache]
  show ?thesis
    by (elim conjE) (intro conjI)
qed

subsection \<open>Ranking in the hierarchy service\<close>

lemma rankingZero_iff:
  "rankingZero worker \<longleftrightarrow>
     ranking (hw_performance worker) = 0 \<and> list_all rankingZero (hw_children worker)"
  by (cases worker) simp

lemma calculatePerformanceMetrics_ranking:
  "calculatePerformanceMetrics now r n = Inr p \<Longrightarrow> ranking p = 0"
  by (auto simp: calculatePerformanceMetrics_def andThen_Inr_iff)

lemma rankingZero_movilizador:
  "transformMovilizadorToHierarchicalWorker now m pid = Inr M \<Longrightarrow> rankingZero M"
  by (auto simp: transformMovilizadorToHierarchicalWorker_def Let_def andThen_Inr_iff
      dest: calculatePerformanceMetrics_ranking)

lemma rankingZero_brigadista:
  assumes "transformBrigadistaToHierarchicalWorker now b pid = Inr B"
  shows "rankingZero B"
proof -
  from assms have "ranking (hw_performance B) = 0"
    by (auto simp: transformBrigadistaToHierarchicalWorker_def andThen_Inr_iff
        dest: calculatePerformanceMetrics_ranking)
  moreover have "rankingZero M" if "M \<in> set (hw_children B)" for M
  proof -
    from list_all2_right [OF brigadista_built(2) [OF assms] that]
    obtain m where "transformMovilizadorToHierarchicalWorker now m (id_row b) = Inr M"
      by (elim exE)
    then show ?thesis
      by (rule rankingZero_movilizador)
  qed
  ultimately show ?thesis
    by (simp add: rankingZero_iff [of B] list_all_iff)
qed

lemma rankingZero_lider:
  assumes "transformLiderToHierarchicalWorker now l = Inr L"
  shows "rankingZero L"
proof -
  from assms have "ranking (hw_performance L) = 0"
    by (auto simp: transformLiderToHierarchicalWorker_def andThen_Inr_iff
        dest: calculatePerformanceMetrics_ranking)
  moreover have "rankingZero B" if "B \<in> set (hw_children L)" for B
  proof -
    from list_all2_right [OF lider_built(2) [OF assms] that]
    obtain b where "transformBrigadistaToHierarchicalWorker now b (id_row l) = Inr B"
      by (elim exE)
    then show ?thesis
      by (rule rankingZero_brigadista)
  qed
  ultimately show ?thesis
    by (simp add: rankingZero_iff [of L] list_all_iff)
qed

lemma rankingZero_tree:
  assumes "transformToHierarchicalWorkers now rows = Inr tree"
  shows "list_all rankingZero tree"
proof -
  from assms
  have all: "list_all2 (\<lambda>l L. transformLiderToHierarchicalWorker now l = Inr L) rows tree"
    by (simp add: transformToHierarchicalWorkers_def mapThrowing_Inr_iff)
  have "rankingZero L" if "L \<in> set tree" for L
  proof -
    from list_all2_right [OF all that]
    obtain l where "transformLiderToHierarchicalWorker now l = Inr L"
      by (elim exE)
    then show ?thesis
      by (rule rankingZero_lider)
  qed
  then show ?thesis
    by (simp add: list_all_iff)
qed

lemma rankingZero_withLevel: "rankingZero (withLevel level worker) = rankingZero worker"
  by (cases worker) (simp add: withLevel_def)

lemma rankingZero_flatten:
  "rankingZero worker \<Longrightarrow> list_all rankingZero (flatten level worker)"
proof (induction level worker rule: flatten.induct)
  case (1 level i n r c u ch p pid a la lv)
  from "1.prems" have ch: "\<forall>x \<in> set ch. rankingZero x"
    by (simp add: list_all_iff)
  have "list_all rankingZero (flatten (level + 1) x)" if "x \<in> set ch" for x
    using "1.IH" [OF that] ch that by blast
  then have rest: "list_all rankingZero (concat (map (flatten (level + 1)) ch))"
    by (simp add: list_all_iff)
  have "rankingZero (withLevel level (HierarchicalWorker i n r c u ch p pid a la lv))"
    using "1.prems" by (simp only: rankingZero_withLevel)
  with rest show ?case
    by (simp del: rankingZero.simps)
qed

lemma rankingZero_flattenHierarchy:
  assumes "list_all rankingZero tree"
  shows "list_all rankingZero (flattenHierarchy tree)"
proof -
  have "list_all rankingZero (flatten 0 worker)" if "worker \<in> set tree" for worker
    using that assms by (intro rankingZero_flatten) (simp add: list_all_iff)
  then show ?thesis
    by (simp add: flattenHierarchy_def list_all_iff)
qed

lemma filterThrowing_subset: "filterThrowing P xs = Inr ys \<Longrightarrow> set ys \<subseteq> set xs"
  by (induction xs arbitrary: ys) (auto split: sum.splits if_splits)

lemma rankingZero_searchFlattened:
  assumes "list_all rankingZero tree"
    and "searchFlattened toLowerCase searchTerm tree = Inr found"
  shows "list_all rankingZero found"
proof -
  from rankingZero_flattenHierarchy [OF assms(1)]
  have "\<forall>x \<in> set (flattenHierarchy tree). rankingZero x"
    by (simp add: list_all_iff)
  moreover from assms(2) have "set found \<subseteq> set (flattenHierarchy tree)"
    unfolding searchFlattened_def by (rule filterThrowing_subset)
  ultimately show ?thesis
    by (auto simp: list_all_iff)
qed

lemma rankingZero_workersByPerformance:
  "list_all rankingZero tree \<Longrightarrow> list_all rankingZero (workersByPerformance level tree)"
  using rankingZero_flattenHierarchy [of tree]
  by (simp add: workersByPerformance_def list_all_iff)

lemma set_update_subset: "set (AList.update k v al) \<subseteq> insert (k, v) (set al)"
  by (induction al) auto

lemma set_delete_subset: "set (AList.delete k al) \<subseteq> set al"
  by (auto simp: AList.delete_eq)

lemma cacheRankingZero_subset:
  "cacheRankingZero cache \<Longrightarrow> set cache' \<subseteq> set cache \<Longrightarrow> cacheRankingZero cache'"
  by (auto simp: cacheRankingZero_def list_all_iff)

lemma cacheRankingZero_getFromCache:
  assumes "cacheRankingZero cache"
  shows "cacheRankingZero (snd (getFromCache now key cache))"
    and "fst (getFromCache now key cache) = Some hit \<Longrightarrow> list_all rankingZero hit"
proof -
  show "cacheRankingZero (snd (getFromCache now key cache))"
    using assms cacheRankingZero_subset [OF assms set_delete_subset [of key cache]]
    by (simp add: getFromCache_def split: option.splits)
  show "list_all rankingZero hit" if "fst (getFromCache now key cache) = Some hit"
  proof -
    from that obtain cached where c: "map_of cache key = Some cached" and h: "hit = data cached"
      by (auto simp: getFromCache_def split: option.splits if_splits)
    from c have "(key, cached) \<in> set cache"
      by (rule map_of_SomeD)
    with assms h show ?thesis
      by (auto simp: cacheRankingZero_def list_all_iff)
  qed
qed

lemma cacheRankingZero_setCache:
  assumes "cacheRankingZero cache" and "list_all rankingZero d"
  shows "cacheRankingZero (setCache now key d cache)"
proof -
  let ?c = "AList.update key \<lparr>data = d, timestamp = now\<rparr> cache"
  have ok: "cacheRankingZero ?c"
    unfolding cacheRankingZero_def list_all_iff
  proof (intro ballI)
    fix p assume "p \<in> set ?c"
    with set_update_subset [of key "\<lparr>data = d, timestamp = now\<rparr>" cache]
    have "p = (key, \<lparr>data = d, timestamp = now\<rparr>) \<or> p \<in> set cache"
      by blast
    then show "case p of (key, cached) \<Rightarrow> \<forall>x \<in> set (data cached). rankingZero x"
      using assms by (auto simp: cacheRankingZero_def list_all_iff)
  qed
  have "set (setCache now key d cache) \<subseteq> set ?c"
  proof (cases "length ?c > 100")
    case False
    then show ?thesis by (simp add: setCache_def Let_def)
  next
    case True
    obtain k0 x rest where c: "?c = (k0, x) # rest"
      by (cases ?c) auto
    have sc: "setCache now key d cache = (if k0 \<noteq> [] then AList.delete k0 ?c else ?c)"
      unfolding setCache_def Let_def using True by (simp add: c)
    show ?thesis
      unfolding sc using set_delete_subset [of k0 ?c] by simp
  qed
  with ok show ?thesis
    by (rule cacheRankingZero_subset)
qed

lemma cacheRankingZero_getHierarchicalData:
  assumes "cacheRankingZero cache"
  shows "cacheRankingZero (snd (getHierarchicalData now later filters gateway cache))"
    and "fst (getHierarchicalData now later filters gateway cache) = Inr ws \<Longrightarrow>
         list_all rankingZero ws"
proof -
  let ?key = "generateCacheKey ''hierarchical-data'' filters"
  obtain cached cache1 where g: "getFromCache now ?key cache = (cached, cache1)"
    by (cases "getFromCache now ?key cache")
  from cacheRankingZero_getFromCache(1) [OF assms, of now ?key] g
  have c1: "cacheRankingZero cache1" by simp
  have hit: "list_all rankingZero h" if "cached = Some h" for h
    using cacheRankingZero_getFromCache(2) [OF assms, of now ?key h] g that by simp
  have stored: "cacheRankingZero (setCache later ?key tree cache1)"
    if "transformToHierarchicalWorkers later rows = Inr tree" for rows tree
    using c1 rankingZero_tree [OF that] by (rule cacheRankingZero_setCache)
  show "cacheRankingZero (snd (getHierarchicalData now later filters gateway cache))"
    using c1 stored
    by (simp add: getHierarchicalData_def Let_def g
        split: option.splits GatewayOutcome.splits sum.splits)
  show "list_all rankingZero ws"
    if "fst (getHierarchicalData now later filters gateway cache) = Inr ws"
    using that hit rankingZero_tree
    by (auto simp: getHierarchicalData_def Let_def g
        split: option.splits GatewayOutcome.splits sum.splits)
qed

lemma snd_getFlattenedHierarchy:
  "snd (getFlattenedHierarchy now later filters gateway cache)
     = snd (getHierarchicalData now later filters gateway cache)"
  by (cases "getHierarchicalData now later filters gateway cache")
     (simp add: getFlattenedHierarchy_def split: sum.splits)

lemma snd_searchWorkers:
  "snd (searchWorkers toLowerCase now later searchTerm filters gateway cache)
     = snd (getHierarchicalData now later filters gateway cache)"
  by (cases "getHierarchicalData now later filters gateway cache")
     (simp add: searchWorkers_def split: sum.splits)

lemma searchWorkers_result:
  "fst (searchWorkers toLowerCase now later searchTerm filters gateway cache) =
     (case fst (getHierarchicalData now later filters gateway cache) of
        Inl e \<Rightarrow> Inl (ServiceError ''Failed to search workers'')
      | Inr hierarchicalData \<Rightarrow>
          (case searchFlattened toLowerCase searchTerm hierarchicalData of
             Inl thrown \<Rightarrow> Inl (ServiceError ''Failed to search workers'')
           | Inr found \<Rightarrow> Inr found))"
  by (cases "getHierarchicalData now later filters gateway cache")
     (simp add: searchWorkers_def split: sum.splits)

lemma snd_getWorkersByPerformance:
  "snd (getWorkersByPerformance now later level filters gateway cache)
     = snd (getHierarchicalData now later filters gateway cache)"
  by (cases "getHierarchicalData now later filters gateway cache")
     (simp add: getWorkersByPerformance_def split: sum.splits)

lemma snd_getHierarchyStats:
  "snd (getHierarchyStats now later filters gateway cache)
     = snd (getHierarchicalData now later filters gateway cache)"
  by (cases "getHierarchicalData now later filters gateway cache")
     (simp add: getHierarchyStats_def split: sum.splits)

lemma getFlattenedHierarchy_result:
  "fst (getFlattenedHierarchy now later filters gateway cache) =
     (case fst (getHierarchicalData now later filters gateway cache) of
        Inl e \<Rightarrow> Inl (ServiceError ''Failed to flatten hierarchy'')
      | Inr hierarchicalData \<Rightarrow> Inr (flattenHierarchy hierarchicalData))"
  by (cases "getHierarchicalData now later filters gateway cache")
     (simp add: getFlattenedHierarchy_def split: sum.splits)

text \<open>
  Claim C10. Every node that \<open>getHierarchicalData\<close>, \<open>getFlattenedHierarchy\<close>,
  \<open>searchWorkers\<close> and \<open>getWorkersByPerformance\<close> return, and every descendant of such a node,
  has \<open>performance.ranking\<close> equal to 0: the builder sets it to 0 and no operation of the
  service assigns it. The cache starts empty and is written by \<open>getHierarchicalData\<close> only, so
  the trees it holds are built ones: this is an invariant of the cache that the empty cache
  satisfies and every operation preserves.
\<close>

theorem ranking_stays_zero:
  "cacheRankingZero clearCache
   \<and> (cacheRankingZero cache \<longrightarrow>
        (\<forall>ws. fst (getHierarchicalData now later filters gateway cache) = Inr ws
              \<longrightarrow> list_all rankingZero ws)
        \<and> (\<forall>ws. fst (getFlattenedHierarchy now later filters gateway cache) = Inr ws
              \<longrightarrow> list_all rankingZero ws)
        \<and> (\<forall>ws. fst (searchWorkers toLowerCase now later searchTerm filters gateway cache) = Inr ws
              \<longrightarrow> list_all rankingZero ws)
        \<and> (\<forall>ws. fst (getWorkersByPerformance now later level filters gateway cache) = Inr ws
              \<longrightarrow> list_all rankingZero ws)
        \<and> cacheRankingZero (snd (getHierarchicalData now later filters gateway cache))
        \<and> cacheRankingZero (snd (getFlattenedHierarchy now later filters gateway cache))
        \<and> cacheRankingZero (snd (searchWorkers toLowerCase now later searchTerm filters gateway cache))
        \<and> cacheRankingZero (snd (getWorkersByPerformance now later level filters gateway cache))
        \<and> cacheRankingZero (snd (getHierarchyStats now later filters gateway cache)))"
proof -
  have init: "cacheRankingZero clearCache"
    by (simp add: cacheRankingZero_def clearCache_def)
  have step: ?thesis if ok: "cacheRankingZero cache"
  proof -
    note tree = cacheRankingZero_getHierarchicalData(2) [OF ok, of now later filters gateway]
    note cache' = cacheRankingZero_getHierarchicalData(1) [OF ok, of now later filters gateway]
    have flat: "list_all rankingZero ws"
      if "fst (getFlattenedHierarchy now later filters gateway cache) = Inr ws" for ws
      using that tree rankingZero_flattenHierarchy
      by (auto simp: getFlattenedHierarchy_result split: sum.splits)
    have search: "list_all rankingZero ws"
      if "fst (searchWorkers toLowerCase now later searchTerm filters gateway cache) = Inr ws" for ws
      using that tree rankingZero_searchFlattened
      by (auto simp: searchWorkers_result split: sum.splits)
    have perf: "list_all rankingZero ws"
      if "fst (getWorkersByPerformance now later level filters gateway cache) = Inr ws" for ws
      using that tree rankingZero_workersByPerformance
      by (auto simp: getWorkersByPerformance_result split: sum.splits)
    from init tree flat search perf cache' show ?thesis
      by (simp add: snd_getFlattenedHierarchy snd_searchWorkers snd_getWorkersByPerformance
          snd_getHierarchyStats)
  qed
  with init show ?thesis
    by blast
qed

theorem ranking_stays_zero_witness:
  "cacheRankingZero clearCache
   \<and> fst (getHierarchicalData 0 0 None (gatewayRows scenarioRows) clearCache) = Inr scenarioTree
   \<and> length (flattenHierarchy scenarioTree) = 5
   \<and> list_all rankingZero scenarioTree
   \<and> fst (getFlattenedHierarchy 0 0 None (gatewayRows scenarioRows) clearCache)
       = Inr (flattenHierarchy scenarioTree)
   \<and> list_all rankingZero (flattenHierarchy scenarioTree)"
proof -
  have res: "fst (getHierarchicalData 0 0 None (gatewayRows scenarioRows) clearCache)
      = Inr scenarioTree"
    by (simp add: getHierarchicalData_rows [OF cache_miss_empty] scenario_build)
  then have flat: "fst (getFlattenedHierarchy 0 0 None (gatewayRows scenarioRows) clearCache)
      = Inr (flattenHierarchy scenarioTree)"
    by (simp add: getFlattenedHierarchy_result)
  have five: "length (flattenHierarchy scenarioTree) = 5"
    by (simp add: flattenHierarchy_def scenarioTree_def scenarioNode_def)
  from ranking_stays_zero [of clearCache 0 0 None "gatewayRows scenarioRows"]
  have ok: "cacheRankingZero clearCache"
    and all: "\<forall>ws. fst (getHierarchicalData 0 0 None (gatewayRows scenarioRows) clearCache) = Inr ws
          \<longrightarrow> list_all rankingZero ws"
    and allFlat: "\<forall>ws. fst (getFlattenedHierarchy 0 0 None (gatewayRows scenarioRows) clearCache)
          = Inr ws \<longrightarrow> list_all rankingZero ws"
    by blast+
  from all res have tree: "list_all rankingZero scenarioTree"
    by blast
  from allFlat flat have nodes: "list_all rankingZero (flattenHierarchy scenarioTree)"
    by blast
  from ok res five tree flat nodes show ?thesis
    by (intro conjI)
qed

subsection \<open>Search\<close>

lemma includes_str_sublist: "includes_str hay needle \<longleftrightarrow> sublist needle hay"
  by (induction hay) (simp_all add: sublist_Cons_right)

lemma jsOr_Inr: "jsOr (Inr a) (Inr b) = Inr (a \<or> b)"
  by (simp add: jsOr_def)

lemma jsOr_Inl: "jsOr a b = Inl e \<Longrightarrow> a = Inl e \<or> b = Inl e"
  by (cases a) (simp_all add: jsOr_def split: if_splits)

lemma nameIncludes_Inl: "nameIncludes toLowerCase f searchLower = Inl e \<Longrightarrow> e = ThrownTypeError"
  by (cases f) (simp_all add: nameIncludes_def)

lemma optIncludes_Inl: "optIncludes toLowerCase f searchLower = Inl e \<Longrightarrow> e = ThrownTypeError"
  by (cases f) (simp_all add: optIncludes_def)

lemma searchMatches_Inl:
  assumes "searchMatches toLowerCase searchLower worker = Inl e"
  shows "e = ThrownTypeError"
proof -
  from assms consider
      "nameIncludes toLowerCase (hw_nombre worker) searchLower = Inl e"
    | "optIncludes toLowerCase (entidad (hw_ubicacion worker)) searchLower = Inl e"
    | "optIncludes toLowerCase (municipio (hw_ubicacion worker)) searchLower = Inl e"
    | "optIncludes toLowerCase (colonia (hw_ubicacion worker)) searchLower = Inl e"
    | "optIncludes toLowerCase (seccion (hw_ubicacion worker)) searchLower = Inl e"
    unfolding searchMatches_def by (blast dest: jsOr_Inl)
  then show ?thesis
    by cases (erule nameIncludes_Inl optIncludes_Inl)+
qed

lemma nameIncludes_named:
  "f = Str n \<Longrightarrow>
   nameIncludes toLowerCase f (toLowerCase searchTerm)
     = Inr (containsIgnoringCase toLowerCase n searchTerm)"
  by (simp add: nameIncludes_def containsIgnoringCase_def includes_str_sublist)

lemma optIncludes_typed:
  "stringOrMissing f \<Longrightarrow>
   optIncludes toLowerCase f (toLowerCase searchTerm)
     = Inr (case f of Str s \<Rightarrow> containsIgnoringCase toLowerCase s searchTerm | _ \<Rightarrow> False)"
  by (cases f)
     (simp_all add: optIncludes_def stringOrMissing_def containsIgnoringCase_def
        includes_str_sublist)

lemma searchMatches_typed:
  assumes "searchTyped worker"
  shows "searchMatches toLowerCase (toLowerCase searchTerm) worker =
     Inr (anyContains toLowerCase
       [hw_nombre worker, entidad (hw_ubicacion worker), municipio (hw_ubicacion worker),
        colonia (hw_ubicacion worker), seccion (hw_ubicacion worker)] searchTerm)"
proof -
  from assms obtain n where n: "hw_nombre worker = Str n"
    by (cases "hw_nombre worker") (simp_all add: searchTyped_def named_def)
  from assms have typed: "stringOrMissing (entidad (hw_ubicacion worker))"
      "stringOrMissing (municipio (hw_ubicacion worker))"
      "stringOrMissing (colonia (hw_ubicacion worker))"
      "stringOrMissing (seccion (hw_ubicacion worker))"
    by (simp_all add: searchTyped_def)
  show ?thesis
    unfolding searchMatches_def
    by (simp only: nameIncludes_named [OF n] optIncludes_typed [OF typed(1)]
        optIncludes_typed [OF typed(2)] optIncludes_typed [OF typed(3)]
        optIncludes_typed [OF typed(4)] jsOr_Inr)
       (simp add: anyContains_def n)
qed

lemma searchMatches_empty:
  assumes "named worker" and "toLowerCase [] = []"
  shows "searchMatches toLowerCase (toLowerCase []) worker = Inr True"
proof -
  from assms(1) obtain n where n: "hw_nombre worker = Str n"
    by (cases "hw_nombre worker") (simp_all add: named_def)
  have "nameIncludes toLowerCase (hw_nombre worker) (toLowerCase []) = Inr True"
    by (simp add: nameIncludes_def n assms(2) includes_str_sublist)
  then show ?thesis
    by (simp add: searchMatches_def jsOr_def)
qed

lemma searchMatches_unnamed:
  "\<not> named worker \<Longrightarrow> searchMatches toLowerCase searchLower worker = Inl ThrownTypeError"
  by (cases "hw_nombre worker") (simp_all add: searchMatches_def nameIncludes_def jsOr_def named_def)

lemma searchFlattened_typed:
  assumes "list_all searchTyped (flattenHierarchy tree)"
  shows "searchFlattened toLowerCase searchTerm tree =
     Inr (filter
       (\<lambda>worker. anyContains toLowerCase
          [hw_nombre worker, entidad (hw_ubicacion worker), municipio (hw_ubicacion worker),
           colonia (hw_ubicacion worker), seccion (hw_ubicacion worker)] searchTerm)
       (flattenHierarchy tree))"
  unfolding searchFlattened_def
proof (rule filterThrowing_total, rule ballI)
  fix worker assume "worker \<in> set (flattenHierarchy tree)"
  with assms have "searchTyped worker"
    by (simp add: list_all_iff)
  then show "searchMatches toLowerCase (toLowerCase searchTerm) worker =
     Inr (anyContains toLowerCase
       [hw_nombre worker, entidad (hw_ubicacion worker), municipio (hw_ubicacion worker),
        colonia (hw_ubicacion worker), seccion (hw_ubicacion worker)] searchTerm)"
    by (rule searchMatches_typed)
qed

lemma searchFlattened_empty:
  assumes "list_all named (flattenHierarchy tree)" and "toLowerCase [] = []"
  shows "searchFlattened toLowerCase [] tree = Inr (flattenHierarchy tree)"
proof -
  have "filterThrowing (searchMatches toLowerCase (toLowerCase [])) (flattenHierarchy tree)
      = Inr (filter (\<lambda>worker. True) (flattenHierarchy tree))"
  proof (rule filterThrowing_total, rule ballI)
    fix worker assume "worker \<in> set (flattenHierarchy tree)"
    with assms(1) have "named worker"
      by (simp add: list_all_iff)
    then show "searchMatches toLowerCase (toLowerCase []) worker = Inr True"
      using assms(2) by (rule searchMatches_empty)
  qed
  then show ?thesis
    by (simp add: searchFlattened_def)
qed

lemma searchFlattened_unnamed:
  assumes "\<not> list_all named (flattenHierarchy tree)"
  shows "searchFlattened toLowerCase searchTerm tree = Inl ThrownTypeError"
  unfolding searchFlattened_def
proof (rule filterThrowing_throws)
  from assms obtain worker where "worker \<in> set (flattenHierarchy tree)" and "\<not> named worker"
    by (auto simp: list_all_iff)
  then show "\<exists>worker \<in> set (flattenHierarchy tree).
      searchMatches toLowerCase (toLowerCase searchTerm) worker = Inl ThrownTypeError"
    using searchMatches_unnamed by blast
  show "\<forall>worker \<in> set (flattenHierarchy tree). \<forall>e'.
      searchMatches toLowerCase (toLowerCase searchTerm) worker = Inl e' \<longrightarrow> e' = ThrownTypeError"
    using searchMatches_Inl by blast
qed

text \<open>Flattening lists every node of the tree, in pre-order, and only adds the level.\<close>

lemma withLevel_withLevel: "withLevel k (withLevel j worker) = withLevel k worker"
  by (simp add: withLevel_def)

lemma flatten_subtreeNodes:
  "map (withLevel 0) (flatten level worker) = map (withLevel 0) (subtreeNodes worker)"
proof (induction level worker rule: flatten.induct)
  case (1 level i n r c u ch p pid a la lv)
  let ?w = "HierarchicalWorker i n r c u ch p pid a la lv"
  have each: "map (withLevel 0) (flatten (level + 1) x) = map (withLevel 0) (subtreeNodes x)"
    if "x \<in> set ch" for x
    using that by (rule "1.IH")
  have "map (withLevel 0) (concat (map (flatten (level + 1)) ch))
      = concat (map (\<lambda>x. map (withLevel 0) (flatten (level + 1) x)) ch)"
    by (simp add: map_concat comp_def)
  also have "\<dots> = concat (map (\<lambda>x. map (withLevel 0) (subtreeNodes x)) ch)"
    using each by (simp cong: map_cong)
  also have "\<dots> = map (withLevel 0) (concat (map subtreeNodes ch))"
    by (simp add: map_concat comp_def)
  finally have rest: "map (withLevel 0) (concat (map (flatten (level + 1)) ch))
      = map (withLevel 0) (concat (map subtreeNodes ch))" .
  have "map (withLevel 0) (flatten level ?w)
      = withLevel 0 (withLevel level ?w) # map (withLevel 0) (concat (map (flatten (level + 1)) ch))"
    by simp
  also have "\<dots> = withLevel 0 ?w # map (withLevel 0) (concat (map subtreeNodes ch))"
    by (simp only: withLevel_withLevel rest)
  also have "\<dots> = map (withLevel 0) (subtreeNodes ?w)"
    by simp
  finally show ?case .
qed

lemma flattenHierarchy_subtreeNodes:
  "map (withLevel 0) (flattenHierarchy tree) = map (withLevel 0) (concat (map subtreeNodes tree))"
proof -
  have "map (withLevel 0) (flattenHierarchy tree)
      = concat (map (\<lambda>x. map (withLevel 0) (flatten 0 x)) tree)"
    by (simp add: flattenHierarchy_def map_concat comp_def)
  also have "\<dots> = concat (map (\<lambda>x. map (withLevel 0) (subtreeNodes x)) tree)"
    by (simp only: flatten_subtreeNodes)
  also have "\<dots> = map (withLevel 0) (concat (map subtreeNodes tree))"
    by (simp add: map_concat comp_def)
  finally show ?thesis .
qed

text \<open>
  Claim C5, as amended. Take a tree each of whose nodes has a string for a name and, for each of
  \<^verbatim>\<open>entidad\<close>, \<^verbatim>\<open>municipio\<close>, \<^verbatim>\<open>colonia\<close> and \<^verbatim>\<open>seccion\<close>, a string or nothing. For every search
  term, the search returns exactly the flattened nodes, in pre-order, whose name or whose
  populated \<^verbatim>\<open>entidad\<close>, \<^verbatim>\<open>municipio\<close>, \<^verbatim>\<open>colonia\<close> or \<^verbatim>\<open>seccion\<close> contains the term as a
  case-insensitive substring (the lower-cased term is a substring of the lower-cased field, so
  two terms that differ only in case find the same nodes); the postal code is not searched. The
  empty term matches every node, as soon as every name is a string. The flattened nodes are all
  the nodes of the tree. When the name of a node is missing or not a string, the search throws a
  \<^verbatim>\<open>TypeError\<close>, and \<open>searchWorkers\<close> fails with its \<^verbatim>\<open>ServiceError\<close>, as it does when the tree
  cannot be had.
\<close>

theorem searchFlattened_spec:
  "(list_all searchTyped (flattenHierarchy tree) \<longrightarrow>
      searchFlattened toLowerCase searchTerm tree =
        Inr (filter
          (\<lambda>worker. anyContains toLowerCase
             [hw_nombre worker, entidad (hw_ubicacion worker), municipio (hw_ubicacion worker),
              colonia (hw_ubicacion worker), seccion (hw_ubicacion worker)] searchTerm)
          (flattenHierarchy tree)))
   \<and> (list_all named (flattenHierarchy tree) \<and> toLowerCase [] = [] \<longrightarrow>
        searchFlattened toLowerCase [] tree = Inr (flattenHierarchy tree))
   \<and> (toLowerCase searchTerm = toLowerCase otherTerm \<longrightarrow>
        searchFlattened toLowerCase searchTerm tree = searchFlattened toLowerCase otherTerm tree)
   \<and> (\<not> list_all named (flattenHierarchy tree) \<longrightarrow>
        searchFlattened toLowerCase searchTerm tree = Inl ThrownTypeError)
   \<and> map (withLevel 0) (flattenHierarchy tree) = map (withLevel 0) (concat (map subtreeNodes tree))
   \<and> fst (searchWorkers toLowerCase now later searchTerm filters gateway cache) =
       (case fst (getHierarchicalData now later filters gateway cache) of
          Inl e \<Rightarrow> Inl (ServiceError ''Failed to search workers'')
        | Inr hierarchicalData \<Rightarrow>
            (case searchFlattened toLowerCase searchTerm hierarchicalData of
               Inl thrown \<Rightarrow> Inl (ServiceError ''Failed to search workers'')
             | Inr found \<Rightarrow> Inr found))"
proof -
  have typed: "searchFlattened toLowerCase searchTerm tree =
        Inr (filter
          (\<lambda>worker. anyContains toLowerCase
             [hw_nombre worker, entidad (hw_ubicacion worker), municipio (hw_ubicacion worker),
              colonia (hw_ubicacion worker), seccion (hw_ubicacion worker)] searchTerm)
          (flattenHierarchy tree))"
    if "list_all searchTyped (flattenHierarchy tree)"
    using that by (rule searchFlattened_typed)
  have empty: "searchFlattened toLowerCase [] tree = Inr (flattenHierarchy tree)"
    if "list_all named (flattenHierarchy tree) \<and> toLowerCase [] = []"
    using that by (simp add: searchFlattened_empty)
  have same: "searchFlattened toLowerCase searchTerm tree = searchFlattened toLowerCase otherTerm tree"
    if "toLowerCase searchTerm = toLowerCase otherTerm"
    using that by (simp add: searchFlattened_def)
  have unnamed: "searchFlattened toLowerCase searchTerm tree = Inl ThrownTypeError"
    if "\<not> list_all named (flattenHierarchy tree)"
    using that by (rule searchFlattened_unnamed)
  show ?thesis
    by (intro conjI impI typed empty same unnamed flattenHierarchy_subtreeNodes
        searchWorkers_result) simp_all
qed

lemma scenario_flattened:
  "flattenHierarchy scenarioTree =
     [withLevel 0 (hd scenarioTree),
      withLevel 1 (scenarioNode ''B1'' Brigadista 3
        [scenarioNode ''M1'' Movilizador 3 [] (Str (ascii ''B1''))] (Str (ascii ''L''))),
      withLevel 2 (scenarioNode ''M1'' Movilizador 3 [] (Str (ascii ''B1''))),
      withLevel 1 (scenarioNode ''B2'' Brigadista 7
        [scenarioNode ''M2'' Movilizador 7 [] (Str (ascii ''B2''))] (Str (ascii ''L''))),
      withLevel 2 (scenarioNode ''M2'' Movilizador 7 [] (Str (ascii ''B2'')))]"
  by (simp add: flattenHierarchy_def scenarioTree_def scenarioNode_def withLevel_def)

lemma scenario_searchTyped: "list_all searchTyped (flattenHierarchy scenarioTree)"
  by (simp add: scenario_flattened)
     (simp add: scenarioTree_def scenarioNode_def withLevel_def searchTyped_def named_def
        stringOrMissing_def)

lemma scenario_named: "list_all named (flattenHierarchy scenarioTree)"
  using scenario_searchTyped by (simp add: list_all_iff searchTyped_def)

lemma scenario_matches_m1:
  "filter
     (\<lambda>worker. anyContains asciiLower
        [hw_nombre worker, entidad (hw_ubicacion worker), municipio (hw_ubicacion worker),
         colonia (hw_ubicacion worker), seccion (hw_ubicacion worker)] (ascii ''m1''))
     (flattenHierarchy scenarioTree)
   = [withLevel 2 (scenarioNode ''M1'' Movilizador 3 [] (Str (ascii ''B1'')))]"
  by (simp add: scenario_flattened)
     (simp add: scenarioTree_def scenarioNode_def withLevel_def anyContains_def
        containsIgnoringCase_def asciiLower_def ascii_def sublist_code)

theorem searchFlattened_spec_witness:
  "list_all searchTyped (flattenHierarchy scenarioTree)
   \<and> length (flattenHierarchy scenarioTree) = 5
   \<and> searchFlattened asciiLower (ascii ''m1'') scenarioTree
       = Inr [withLevel 2 (scenarioNode ''M1'' Movilizador 3 [] (Str (ascii ''B1'')))]
   \<and> searchFlattened asciiLower (ascii ''M1'') scenarioTree
       = Inr [withLevel 2 (scenarioNode ''M1'' Movilizador 3 [] (Str (ascii ''B1'')))]
   \<and> searchFlattened asciiLower [] scenarioTree = Inr (flattenHierarchy scenarioTree)
   \<and> searchFlattened asciiLower (ascii ''m1'') [namelessWorker] = Inl ThrownTypeError"
proof -
  note spec = searchFlattened_spec [where toLowerCase = asciiLower]
  from spec [of scenarioTree "ascii ''m1''"] scenario_searchTyped scenario_matches_m1
  have a: "searchFlattened asciiLower (ascii ''m1'') scenarioTree
       = Inr [withLevel 2 (scenarioNode ''M1'' Movilizador 3 [] (Str (ascii ''B1'')))]"
    by simp
  have "asciiLower (ascii ''M1'') = asciiLower (ascii ''m1'')"
    by (simp add: asciiLower_def ascii_def)
  with spec [of scenarioTree "ascii ''M1''" "ascii ''m1''"]
  have "searchFlattened asciiLower (ascii ''M1'') scenarioTree
      = searchFlattened asciiLower (ascii ''m1'') scenarioTree"
    by blast
  with a have b: "searchFlattened asciiLower (ascii ''M1'') scenarioTree
       = Inr [withLevel 2 (scenarioNode ''M1'' Movilizador 3 [] (Str (ascii ''B1'')))]"
    by simp
  have "asciiLower [] = []"
    by (simp add: asciiLower_def)
  with spec [of scenarioTree] scenario_named
  have c: "searchFlattened asciiLower [] scenarioTree = Inr (flattenHierarchy scenarioTree)"
    by blast
  have "\<not> list_all named (flattenHierarchy [namelessWorker])"
    by (simp add: flattenHierarchy_def namelessWorker_def withLevel_def named_def)
  with spec [of "[namelessWorker]" "ascii ''m1''"]
  have d: "searchFlattened asciiLower (ascii ''m1'') [namelessWorker] = Inl ThrownTypeError"
    by blast
  have five: "length (flattenHierarchy scenarioTree) = 5"
    by (simp add: scenario_flattened)
  from scenario_searchTyped five a b c d show ?thesis
    by (intro conjI)
qed

text \<open>
  Claim C5, as stated, fails: a node whose postal code contains the term, and whose name and
  other location fields do not, matches in the specification's sense and is not returned.
\<close>

theorem search_postal_code_counterexample:
  "flattenHierarchy [exampleWorker ''Ana'' 0 0 0 True]
     = [withLevel 0 (exampleWorker ''Ana'' 0 0 0 True)]
   \<and> specSearchMatches asciiLower (ascii ''72000'') (withLevel 0 (exampleWorker ''Ana'' 0 0 0 True))
   \<and> searchFlattened asciiLower (ascii ''72000'') [exampleWorker ''Ana'' 0 0 0 True] = Inr []
   \<and> fst (searchWorkers asciiLower 0 0 (ascii ''72000'') None
        (gatewayRows
           [WorkerRow.extend (exampleRow (Str (ascii ''l1'')) (Str (ascii ''Ana'')))
              \<lparr>brigadistas = NoArray\<rparr>])
        clearCache)
      = Inr []"
proof -
  have flat: "flattenHierarchy [exampleWorker ''Ana'' 0 0 0 True]
     = [withLevel 0 (exampleWorker ''Ana'' 0 0 0 True)]"
    by (rule flattenHierarchy_exampleWorker)
  have spec: "specSearchMatches asciiLower (ascii ''72000'')
      (withLevel 0 (exampleWorker ''Ana'' 0 0 0 True))"
    by (simp add: specSearchMatches_def withLevel_def exampleWorker_def anyContains_def
        containsIgnoringCase_def asciiLower_def ascii_def sublist_code)
  have code: "searchFlattened asciiLower (ascii ''72000'') [exampleWorker ''Ana'' 0 0 0 True]
      = Inr []"
    by (simp add: searchFlattened_def flat)
       (simp add: withLevel_def exampleWorker_def searchMatches_def nameIncludes_def
        optIncludes_def jsOr_def asciiLower_def ascii_def)
  have op: "fst (searchWorkers asciiLower 0 0 (ascii ''72000'') None
        (gatewayRows
           [WorkerRow.extend (exampleRow (Str (ascii ''l1'')) (Str (ascii ''Ana'')))
              \<lparr>brigadistas = NoArray\<rparr>])
        clearCache)
      = Inr []"
    by (simp add: searchWorkers_def getHierarchicalData_def Let_def clearCache_def
        getFromCache_def gatewayRows_def transformToHierarchicalWorkers_def
        transformLiderToHierarchicalWorker_def exampleRow_def WorkerRow.defs
        LiderWithHierarchy.defs andThen_def arrayOrEmpty_def calculateTotalCiudadanos_def
        extractLocationInfo_def calculatePerformanceMetrics_def calculateDataCompleteness_def
        fields_of_def fieldCompleted_def trim_def isWhitespace_def ascii_def
        searchFlattened_def flattenHierarchy_def withLevel_def searchMatches_def
        nameIncludes_def optIncludes_def jsOr_def asciiLower_def)
  from flat spec code op show ?thesis
    by (intro conjI)
qed

end
